theory Spec2Isabelle
  imports Main
begin

section \<open>Go library functions the client calls\<close>

subsection \<open>strings.Contains\<close>

fun HasPrefix :: "string \<Rightarrow> string \<Rightarrow> bool" where
  "HasPrefix s [] = True"
| "HasPrefix [] (p # ps) = False"
| "HasPrefix (c # cs) (p # ps) = (c = p \<and> HasPrefix cs ps)"

text \<open>\<^verbatim>\<open>strings.Contains(s, substr)\<close>: \<open>substr\<close> starts at some position of \<open>s\<close>.\<close>

fun Contains :: "string \<Rightarrow> string \<Rightarrow> bool" where
  "Contains [] substr = (substr = [])"
| "Contains (c # cs) substr = (HasPrefix (c # cs) substr \<or> Contains cs substr)"

subsection \<open>Decimal rendering of an integer (the verb \<^verbatim>\<open>%d\<close>)\<close>

text \<open>
  Go's \<^verbatim>\<open>int\<close> is modelled by \<^typ>\<open>int\<close>: the client never computes with the
  identifiers it is given, it only compares them with zero and prints them, so
  no operation of the model can leave the machine range.
\<close>

fun digits :: "nat \<Rightarrow> string" where
  "digits n =
     (if n < 10 then [''0123456789'' ! n]
      else digits (n div 10) @ [''0123456789'' ! (n mod 10)])"

declare digits.simps [simp del]

definition fmtd :: "int \<Rightarrow> string" where
  "fmtd i = (if i < 0 then CHR ''-'' # digits (nat (- i)) else digits (nat i))"

subsection \<open>fmt.Sprintf\<close>

text \<open>
  A value of type \<^verbatim>\<open>interface{}\<close>: a string, an int, or a value of any other
  dynamic type, kept as the name of its type and its rendering under each verb.
\<close>

datatype iface = GoString string | GoInt int | GoOther string "char \<Rightarrow> string"

fun type_name :: "iface \<Rightarrow> string" where
  "type_name (GoString s) = ''string''"
| "type_name (GoInt i) = ''int''"
| "type_name (GoOther t r) = t"

fun fmt_v :: "iface \<Rightarrow> string" where
  "fmt_v (GoString s) = s"
| "fmt_v (GoInt i) = fmtd i"
| "fmt_v (GoOther t r) = r (CHR ''v'')"

text \<open>A verb that does not fit its operand prints \<^verbatim>\<open>%!verb(type=value)\<close>.\<close>

definition badVerb :: "char \<Rightarrow> iface \<Rightarrow> string" where
  "badVerb verb a = ''%!'' @ [verb] @ ''('' @ type_name a @ ''='' @ fmt_v a @ '')''"

text \<open>
  The verbs the repository uses are \<^verbatim>\<open>%s\<close>, \<^verbatim>\<open>%d\<close> and \<^verbatim>\<open>%v\<close>, without flags,
  widths or argument indexes; these are what \<open>printArg\<close> and \<open>Sprintf\<close>
  interpret. A string takes \<^verbatim>\<open>%v\<close> and \<^verbatim>\<open>%s\<close>, an int takes \<^verbatim>\<open>%v\<close> and
  \<^verbatim>\<open>%d\<close>; a value of another dynamic type prints as its own rendering says.
\<close>

fun printArg :: "iface \<Rightarrow> char \<Rightarrow> string" where
  "printArg (GoString s) verb =
     (if verb = CHR ''v'' \<or> verb = CHR ''s'' then s else badVerb verb (GoString s))"
| "printArg (GoInt i) verb =
     (if verb = CHR ''v'' \<or> verb = CHR ''d'' then fmtd i else badVerb verb (GoInt i))"
| "printArg (GoOther t r) verb = r verb"

text \<open>
  Operands left over after the format are reported at the end of the result:
  \<^verbatim>\<open>%!(EXTRA type=value, type=value)\<close>. A verb with no operand left prints
  \<^verbatim>\<open>%!verb(MISSING)\<close>, a \<^verbatim>\<open>%\<close> that ends the format \<^verbatim>\<open>%!(NOVERB)\<close>, and \<^verbatim>\<open>%%\<close> a
  percent sign.
\<close>

fun extra_items :: "iface list \<Rightarrow> string" where
  "extra_items [] = []"
| "extra_items [a] = type_name a @ ''='' @ fmt_v a"
| "extra_items (a # b # bs) = type_name a @ ''='' @ fmt_v a @ '', '' @ extra_items (b # bs)"

definition extra_args :: "iface list \<Rightarrow> string" where
  "extra_args a = (if a = [] then [] else ''%!(EXTRA '' @ extra_items a @ '')'')"

fun Sprintf :: "string \<Rightarrow> iface list \<Rightarrow> string" where
  "Sprintf [] a = extra_args a"
| "Sprintf (c # fs) a =
     (if c \<noteq> CHR ''%'' then c # Sprintf fs a
      else (case fs of
              [] \<Rightarrow> ''%!(NOVERB)'' @ extra_args a
            | verb # fs' \<Rightarrow>
                if verb = CHR ''%'' then CHR ''%'' # Sprintf fs' a
                else (case a of
                        [] \<Rightarrow> ''%!'' @ [verb] @ ''(MISSING)'' @ Sprintf fs' []
                      | x # a' \<Rightarrow> printArg x verb @ Sprintf fs' a')))"

subsection \<open>strings.Join\<close>

fun Join :: "string list \<Rightarrow> string \<Rightarrow> string" where
  "Join [] sep = []"
| "Join [x] sep = x"
| "Join (x # y # ys) sep = x @ sep @ Join (y # ys) sep"

section \<open>The client (godo.go)\<close>

definition StatusOK :: string where
  "StatusOK = ''OK''"

definition StatusError :: string where
  "StatusError = ''ERROR''"

definition APIURL :: string where
  "APIURL = ''https://api.digitalocean.com/v1''"

record Client =
  ClientID :: string
  APIKey :: string

text \<open>
  An error value is either made by \<^verbatim>\<open>fmt.Errorf\<close> (its text), or comes from
  \<^verbatim>\<open>http.Get\<close>, \<^verbatim>\<open>ioutil.ReadAll\<close> or \<^verbatim>\<open>json.Unmarshal\<close>.
\<close>

datatype error = ErrorString string | HttpError string | ReadError string | JsonError string

definition Errorf :: "string \<Rightarrow> iface list \<Rightarrow> error" where
  "Errorf format a = ErrorString (Sprintf format a)"

text \<open>
  What the network answers to a GET of a URL: \<^verbatim>\<open>http.Get\<close> fails, or it gives a
  response whose body cannot be read, or whose body is read in full. The network
  is a function of the URL: every operation of the client makes at most one
  request, so one answer per URL is all it can observe.
\<close>

datatype http_response = GetFailed string | ReadAllFailed string | Body string

type_synonym transport = "string \<Rightarrow> http_response"

text \<open>A call either returns or panics with an error value.\<close>

datatype 'a outcome = Panic error | Return 'a

text \<open>The URL that \<open>doGet\<close> composes for an endpoint (its lines up to the call of \<^verbatim>\<open>http.Get\<close>).\<close>

definition doGet_url :: "Client \<Rightarrow> string \<Rightarrow> string" where
  "doGet_url c endpoint =
     (let url = Sprintf ''%s%s'' [GoString APIURL, GoString endpoint];
          url = (if \<not> Contains url ''?'' then url @ ''?'' else url @ ''&'')
      in url @ Sprintf ''client_id=%s&api_key=%s''
                 [GoString (ClientID c), GoString (APIKey c)])"

text \<open>
  \<open>doGet\<close> takes the list of the URLs requested so far and returns it extended:
  the request is recorded whether it succeeds or not. The decoder stands for
  \<^verbatim>\<open>json.Unmarshal\<close> into the envelope the caller passes (\<open>Inl\<close> its error); a
  successful call returns the filled envelope where the Go stores it through the
  pointer \<^verbatim>\<open>i\<close> and returns nil. Closing the body of the response has no effect
  that a caller can see and is left out.
\<close>

definition doGet ::
  "Client \<Rightarrow> transport \<Rightarrow> (string \<Rightarrow> string + 'e) \<Rightarrow> string \<Rightarrow> string list
     \<Rightarrow> (error + 'e) outcome \<times> string list" where
  "doGet c http unmarshal endpoint reqs =
     (let url = doGet_url c endpoint;
          reqs' = reqs @ [url]
      in case http url of
           GetFailed e \<Rightarrow> (Return (Inl (HttpError e)), reqs')
         | ReadAllFailed e \<Rightarrow> (Panic (ReadError e), reqs')
         | Body body \<Rightarrow>
             (case unmarshal body of
                Inl e \<Rightarrow> (Panic (JsonError e), reqs')
              | Inr env \<Rightarrow> (Return (Inr env), reqs')))"

text \<open>A \<^verbatim>\<open>float64\<close> is only decoded and handed on; nothing is computed with it.\<close>

typedecl float64

record Event =
  ID :: string
  ActionStatus :: string
  DropletID :: int
  EventTypeID :: int
  Percentage :: float64

record Region =
  ID :: int
  Name :: string
  Slug :: string

record Size =
  ID :: int
  Name :: string
  Slug :: string
  Memory :: int
  CPU :: int
  Disk :: int
  CostPerHour :: float64
  CostPerMonth :: string

record GetEventByID_DOResp =
  Status :: string
  Event :: Event
  Message :: string

record GetAllRegions_DOResp =
  Status :: string
  Regions :: "Region list"
  Message :: string

record GetAllSizes_DOResp =
  Status :: string
  Sizes :: "Size list"
  Message :: string

text \<open>
  A Go result \<^verbatim>\<open>(*T, error)\<close> is a pair of options (\<open>None\<close> is nil), a result
  \<^verbatim>\<open>([]T, error)\<close> a list (nil is the empty list) and an optional error, a result
  \<^verbatim>\<open>(int, error)\<close> an int and an optional error, a result \<^verbatim>\<open>error\<close> an optional
  error.
\<close>

definition GetEventByID ::
  "Client \<Rightarrow> transport \<Rightarrow> (string \<Rightarrow> string + GetEventByID_DOResp) \<Rightarrow> int \<Rightarrow> string list
     \<Rightarrow> (Event option \<times> error option) outcome \<times> string list" where
  "GetEventByID c http unmarshal ID' reqs =
     (case doGet c http unmarshal (Sprintf ''/events/%d'' [GoInt ID']) reqs of
        (Panic p, reqs') \<Rightarrow> (Panic p, reqs')
      | (Return (Inl err), reqs') \<Rightarrow> (Return (None, Some err), reqs')
      | (Return (Inr DOResp), reqs') \<Rightarrow>
          if GetEventByID_DOResp.Status DOResp = StatusError then
            (Return (None, Some (Errorf ''could not get event with ID %d: %v''
               [GoInt ID', GoString (GetEventByID_DOResp.Message DOResp)])), reqs')
          else (Return (Some (GetEventByID_DOResp.Event DOResp), None), reqs'))"

definition GetAllRegions ::
  "Client \<Rightarrow> transport \<Rightarrow> (string \<Rightarrow> string + GetAllRegions_DOResp) \<Rightarrow> string list
     \<Rightarrow> (Region list \<times> error option) outcome \<times> string list" where
  "GetAllRegions c http unmarshal reqs =
     (case doGet c http unmarshal ''/regions'' reqs of
        (Panic p, reqs') \<Rightarrow> (Panic p, reqs')
      | (Return (Inl err), reqs') \<Rightarrow> (Return ([], Some err), reqs')
      | (Return (Inr DOResp), reqs') \<Rightarrow>
          if GetAllRegions_DOResp.Status DOResp = StatusError then
            (Return ([], Some (Errorf ''could not get regions: %v''
               [GoString (GetAllRegions_DOResp.Message DOResp)])), reqs')
          else (Return (GetAllRegions_DOResp.Regions DOResp, None), reqs'))"

definition GetAllSizes ::
  "Client \<Rightarrow> transport \<Rightarrow> (string \<Rightarrow> string + GetAllSizes_DOResp) \<Rightarrow> string list
     \<Rightarrow> (Size list \<times> error option) outcome \<times> string list" where
  "GetAllSizes c http unmarshal reqs =
     (case doGet c http unmarshal ''/sizes'' reqs of
        (Panic p, reqs') \<Rightarrow> (Panic p, reqs')
      | (Return (Inl err), reqs') \<Rightarrow> (Return ([], Some err), reqs')
      | (Return (Inr DOResp), reqs') \<Rightarrow>
          if GetAllSizes_DOResp.Status DOResp = StatusError then
            (Return ([], Some (Errorf ''could not get sizes: %v''
               [GoString (GetAllSizes_DOResp.Message DOResp)])), reqs')
          else (Return (GetAllSizes_DOResp.Sizes DOResp, None), reqs'))"

section \<open>Droplets\<close>

text \<open>\<open>CreatedAt\<close> is a \<^verbatim>\<open>time.Time\<close>, kept as the text the API sends.\<close>

record Droplet =
  ID :: int
  Name :: string
  ImageID :: int
  SizeID :: int
  RegionID :: int
  BackupsActive :: bool
  IPAdress :: string
  PrivateIPAddress :: string
  Locked :: bool
  Status :: string
  CreatedAt :: string

record NewDroplet =
  Name :: string
  SizeID :: int
  SizeSlug :: string
  ImageID :: int
  ImageSlug :: string
  RegionID :: int
  RegionSlug :: string
  SSHKeyIDs :: "string list"
  PrivateNetworking :: bool
  BackupsEnabled :: bool

record PartialDroplet =
  ID :: int
  Name :: string
  ImageID :: int
  SizeID :: int
  EventID :: int

text \<open>The envelopes \<^verbatim>\<open>DOResp\<close> that the droplet operations decode into.\<close>

record CreateDroplet_DOResp =
  Status :: string
  Droplet :: PartialDroplet
  Message :: string

record GetDropletByID_DOResp =
  Status :: string
  Droplet :: Droplet
  Message :: string

record EventID_DOResp =
  Status :: string
  EventID :: int
  Message :: string

definition CreateDroplet ::
  "Client \<Rightarrow> transport \<Rightarrow> (string \<Rightarrow> string + CreateDroplet_DOResp) \<Rightarrow> NewDroplet
     \<Rightarrow> string list \<Rightarrow> (PartialDroplet option \<times> error option) outcome \<times> string list" where
  "CreateDroplet c http unmarshal n reqs =
     (if NewDroplet.SizeID n = 0 \<and> NewDroplet.SizeSlug n = [] then
        (Return (None, Some (Errorf ''size ID or slug must be set'' [])), reqs)
      else if NewDroplet.ImageID n = 0 \<and> NewDroplet.ImageSlug n = [] then
        (Return (None, Some (Errorf ''image ID or slug must be set'' [])), reqs)
      else if NewDroplet.RegionID n = 0 \<and> NewDroplet.RegionSlug n = [] then
        (Return (None, Some (Errorf ''region ID or slug must be set'' [])), reqs)
      else
        let s = Sprintf ''/droplets/new?name=%s'' [GoString (NewDroplet.Name n)];
            s = (if NewDroplet.SizeID n \<noteq> 0
                 then s @ Sprintf ''&size_id=%d'' [GoInt (NewDroplet.SizeID n)]
                 else s @ ''&size_slug='' @ NewDroplet.SizeSlug n);
            s = (if NewDroplet.ImageID n \<noteq> 0
                 then s @ Sprintf ''&image_id=%d'' [GoInt (NewDroplet.ImageID n)]
                 else s @ ''&image_slug='' @ NewDroplet.ImageSlug n);
            s = (if NewDroplet.RegionID n \<noteq> 0
                 then s @ Sprintf ''&region_id=%d'' [GoInt (NewDroplet.RegionID n)]
                 else s @ ''&region_slug='' @ NewDroplet.RegionSlug n);
            s = (if length (NewDroplet.SSHKeyIDs n) > 0
                 then s @ ''&ssh_key_ids='' @ Join (NewDroplet.SSHKeyIDs n) '',''
                 else s);
            s = (if NewDroplet.PrivateNetworking n then s @ ''&private_networking=true'' else s);
            s = (if NewDroplet.BackupsEnabled n then s @ ''&backups_enabled=true'' else s)
        in case doGet c http unmarshal s reqs of
             (Panic p, reqs') \<Rightarrow> (Panic p, reqs')
           | (Return (Inl err), reqs') \<Rightarrow> (Return (None, Some err), reqs')
           | (Return (Inr DOResp), reqs') \<Rightarrow>
               if CreateDroplet_DOResp.Status DOResp = StatusError then
                 (Return (None, Some (Errorf ''could not create droplet: %v''
                    [GoString (CreateDroplet_DOResp.Message DOResp)])), reqs')
               else (Return (Some (CreateDroplet_DOResp.Droplet DOResp), None), reqs'))"

definition GetDropletByID ::
  "Client \<Rightarrow> transport \<Rightarrow> (string \<Rightarrow> string + GetDropletByID_DOResp) \<Rightarrow> int
     \<Rightarrow> string list \<Rightarrow> (Droplet option \<times> error option) outcome \<times> string list" where
  "GetDropletByID c http unmarshal ID' reqs =
     (case doGet c http unmarshal (Sprintf ''/droplets/%d'' [GoInt ID']) reqs of
        (Panic p, reqs') \<Rightarrow> (Panic p, reqs')
      | (Return (Inl err), reqs') \<Rightarrow> (Return (None, Some err), reqs')
      | (Return (Inr DOResp), reqs') \<Rightarrow>
          if GetDropletByID_DOResp.Status DOResp = StatusError then
            (Return (None, Some (Errorf ''could not get droplet with ID %d: %v''
               [GoInt ID', GoString (GetDropletByID_DOResp.Message DOResp)])), reqs')
          else (Return (Some (GetDropletByID_DOResp.Droplet DOResp), None), reqs'))"

text \<open>
  The type switch of \<open>ResizeDroplet\<close> either extends \<open>s\<close> or returns; the inner
  \<open>case\<close> is the switch, \<open>None\<close> its default branch.
\<close>

definition ResizeDroplet ::
  "Client \<Rightarrow> transport \<Rightarrow> (string \<Rightarrow> string + EventID_DOResp) \<Rightarrow> int \<Rightarrow> iface
     \<Rightarrow> string list \<Rightarrow> (int \<times> error option) outcome \<times> string list" where
  "ResizeDroplet c http unmarshal ID' sz reqs =
     (let s = Sprintf ''/droplets/%d/resize'' [GoInt ID'] in
      case (case sz of
              GoString _ \<Rightarrow> Some (s @ Sprintf ''&size_slug=%s'' [sz])
            | GoInt _ \<Rightarrow> Some (s @ Sprintf ''&size_id=%d'' [sz])
            | GoOther _ _ \<Rightarrow> None) of
        None \<Rightarrow> (Return (0, Some (Errorf ''size must be either a string or integer'' [])), reqs)
      | Some s \<Rightarrow>
          (case doGet c http unmarshal s reqs of
             (Panic p, reqs') \<Rightarrow> (Panic p, reqs')
           | (Return (Inl err), reqs') \<Rightarrow> (Return (0, Some err), reqs')
           | (Return (Inr DOResp), reqs') \<Rightarrow>
               if EventID_DOResp.Status DOResp = StatusError then
                 (Return (0, Some (Errorf ''could not resize the droplet with ID %d: %v''
                    [GoInt ID', GoString (EventID_DOResp.Message DOResp)])), reqs')
               else (Return (EventID_DOResp.EventID DOResp, None), reqs')))"

definition TakeSnapshotOnDroplet ::
  "Client \<Rightarrow> transport \<Rightarrow> (string \<Rightarrow> string + EventID_DOResp) \<Rightarrow> int \<Rightarrow> string
     \<Rightarrow> string list \<Rightarrow> (int \<times> error option) outcome \<times> string list" where
  "TakeSnapshotOnDroplet c http unmarshal ID' name reqs =
     (let s = Sprintf ''/droplets/%d/snapshot'' [GoInt ID'];
          s = (if name \<noteq> [] then s @ Sprintf ''&name=%s'' [GoString name] else s)
      in case doGet c http unmarshal s reqs of
           (Panic p, reqs') \<Rightarrow> (Panic p, reqs')
         | (Return (Inl err), reqs') \<Rightarrow> (Return (0, Some err), reqs')
         | (Return (Inr DOResp), reqs') \<Rightarrow>
             if EventID_DOResp.Status DOResp = StatusError then
               (Return (0, Some (Errorf ''could not take snapshot of droplet with ID %d: %v''
                  [GoInt ID', GoString (EventID_DOResp.Message DOResp)])), reqs')
             else (Return (EventID_DOResp.EventID DOResp, None), reqs'))"

record GetAllDroplets_DOResp =
  Status :: string
  Droplets :: "Droplet list"
  Message :: string

definition DeleteDropletByID ::
  "Client \<Rightarrow> transport \<Rightarrow> (string \<Rightarrow> string + EventID_DOResp) \<Rightarrow> int \<Rightarrow> string list
     \<Rightarrow> (int \<times> error option) outcome \<times> string list" where
  "DeleteDropletByID c http unmarshal ID' reqs =
     (case doGet c http unmarshal (Sprintf ''/droplets/%d/destroy'' [GoInt ID']) reqs of
        (Panic p, reqs') \<Rightarrow> (Panic p, reqs')
      | (Return (Inl err), reqs') \<Rightarrow> (Return (0, Some err), reqs')
      | (Return (Inr DOResp), reqs') \<Rightarrow>
          if EventID_DOResp.Status DOResp = StatusError then
            (Return (0, Some (Errorf ''could not delete droplet with ID %d: %v''
               [GoInt ID', GoString (EventID_DOResp.Message DOResp)])), reqs')
          else (Return (EventID_DOResp.EventID DOResp, None), reqs'))"

definition GetAllDroplets ::
  "Client \<Rightarrow> transport \<Rightarrow> (string \<Rightarrow> string + GetAllDroplets_DOResp) \<Rightarrow> string list
     \<Rightarrow> (Droplet list \<times> error option) outcome \<times> string list" where
  "GetAllDroplets c http unmarshal reqs =
     (case doGet c http unmarshal ''/droplets'' reqs of
        (Panic p, reqs') \<Rightarrow> (Panic p, reqs')
      | (Return (Inl err), reqs') \<Rightarrow> (Return ([], Some err), reqs')
      | (Return (Inr DOResp), reqs') \<Rightarrow>
          if GetAllDroplets_DOResp.Status DOResp = StatusError then
            (Return ([], Some (Errorf ''could not get droplets: %v''
               [GoString (GetAllDroplets_DOResp.Message DOResp)])), reqs')
          else (Return (GetAllDroplets_DOResp.Droplets DOResp, None), reqs'))"

definition RebootDroplet ::
  "Client \<Rightarrow> transport \<Rightarrow> (string \<Rightarrow> string + EventID_DOResp) \<Rightarrow> int \<Rightarrow> string list
     \<Rightarrow> (int \<times> error option) outcome \<times> string list" where
  "RebootDroplet c http unmarshal ID' reqs =
     (case doGet c http unmarshal (Sprintf ''/droplets/%d/reboot'' [GoInt ID']) reqs of
        (Panic p, reqs') \<Rightarrow> (Panic p, reqs')
      | (Return (Inl err), reqs') \<Rightarrow> (Return (0, Some err), reqs')
      | (Return (Inr DOResp), reqs') \<Rightarrow>
          if EventID_DOResp.Status DOResp = StatusError then
            (Return (0, Some (Errorf ''could not reboot droplet with ID %d: %v''
               [GoInt ID', GoString (EventID_DOResp.Message DOResp)])), reqs')
          else (Return (EventID_DOResp.EventID DOResp, None), reqs'))"

definition PowerCycleDroplet ::
  "Client \<Rightarrow> transport \<Rightarrow> (string \<Rightarrow> string + EventID_DOResp) \<Rightarrow> int \<Rightarrow> string list
     \<Rightarrow> (int \<times> error option) outcome \<times> string list" where
  "PowerCycleDroplet c http unmarshal ID' reqs =
     (case doGet c http unmarshal (Sprintf ''/droplets/%d/power_cycle'' [GoInt ID']) reqs of
        (Panic p, reqs') \<Rightarrow> (Panic p, reqs')
      | (Return (Inl err), reqs') \<Rightarrow> (Return (0, Some err), reqs')
      | (Return (Inr DOResp), reqs') \<Rightarrow>
          if EventID_DOResp.Status DOResp = StatusError then
            (Return (0, Some (Errorf ''could not reboot droplet with ID %d: %v''
               [GoInt ID', GoString (EventID_DOResp.Message DOResp)])), reqs')
          else (Return (EventID_DOResp.EventID DOResp, None), reqs'))"

definition ShutDownDroplet ::
  "Client \<Rightarrow> transport \<Rightarrow> (string \<Rightarrow> string + EventID_DOResp) \<Rightarrow> int \<Rightarrow> string list
     \<Rightarrow> (int \<times> error option) outcome \<times> string list" where
  "ShutDownDroplet c http unmarshal ID' reqs =
     (case doGet c http unmarshal (Sprintf ''/droplets/%d/shutdown'' [GoInt ID']) reqs of
        (Panic p, reqs') \<Rightarrow> (Panic p, reqs')
      | (Return (Inl err), reqs') \<Rightarrow> (Return (0, Some err), reqs')
      | (Return (Inr DOResp), reqs') \<Rightarrow>
          if EventID_DOResp.Status DOResp = StatusError then
            (Return (0, Some (Errorf ''could not shut down droplet with ID %d: %v''
               [GoInt ID', GoString (EventID_DOResp.Message DOResp)])), reqs')
          else (Return (EventID_DOResp.EventID DOResp, None), reqs'))"

definition PowerOffDroplet ::
  "Client \<Rightarrow> transport \<Rightarrow> (string \<Rightarrow> string + EventID_DOResp) \<Rightarrow> int \<Rightarrow> string list
     \<Rightarrow> (int \<times> error option) outcome \<times> string list" where
  "PowerOffDroplet c http unmarshal ID' reqs =
     (case doGet c http unmarshal (Sprintf ''/droplets/%d/power_off'' [GoInt ID']) reqs of
        (Panic p, reqs') \<Rightarrow> (Panic p, reqs')
      | (Return (Inl err), reqs') \<Rightarrow> (Return (0, Some err), reqs')
      | (Return (Inr DOResp), reqs') \<Rightarrow>
          if EventID_DOResp.Status DOResp = StatusError then
            (Return (0, Some (Errorf ''could not power off droplet with ID %d: %v''
               [GoInt ID', GoString (EventID_DOResp.Message DOResp)])), reqs')
          else (Return (EventID_DOResp.EventID DOResp, None), reqs'))"

definition PowerOnDroplet ::
  "Client \<Rightarrow> transport \<Rightarrow> (string \<Rightarrow> string + EventID_DOResp) \<Rightarrow> int \<Rightarrow> string list
     \<Rightarrow> (int \<times> error option) outcome \<times> string list" where
  "PowerOnDroplet c http unmarshal ID' reqs =
     (case doGet c http unmarshal (Sprintf ''/droplets/%d/power_on'' [GoInt ID']) reqs of
        (Panic p, reqs') \<Rightarrow> (Panic p, reqs')
      | (Return (Inl err), reqs') \<Rightarrow> (Return (0, Some err), reqs')
      | (Return (Inr DOResp), reqs') \<Rightarrow>
          if EventID_DOResp.Status DOResp = StatusError then
            (Return (0, Some (Errorf ''could not power on droplet with ID %d: %v''
               [GoInt ID', GoString (EventID_DOResp.Message DOResp)])), reqs')
          else (Return (EventID_DOResp.EventID DOResp, None), reqs'))"

definition ResetRootPassDroplet ::
  "Client \<Rightarrow> transport \<Rightarrow> (string \<Rightarrow> string + EventID_DOResp) \<Rightarrow> int \<Rightarrow> string list
     \<Rightarrow> (int \<times> error option) outcome \<times> string list" where
  "ResetRootPassDroplet c http unmarshal ID' reqs =
     (case doGet c http unmarshal (Sprintf ''/droplets/%d/password_reset'' [GoInt ID']) reqs of
        (Panic p, reqs') \<Rightarrow> (Panic p, reqs')
      | (Return (Inl err), reqs') \<Rightarrow> (Return (0, Some err), reqs')
      | (Return (Inr DOResp), reqs') \<Rightarrow>
          if EventID_DOResp.Status DOResp = StatusError then
            (Return (0, Some (Errorf ''could not reset root's password for droplet with ID %d: %v''
               [GoInt ID', GoString (EventID_DOResp.Message DOResp)])), reqs')
          else (Return (EventID_DOResp.EventID DOResp, None), reqs'))"

definition RestoreDroplet ::
  "Client \<Rightarrow> transport \<Rightarrow> (string \<Rightarrow> string + EventID_DOResp) \<Rightarrow> int \<Rightarrow> int \<Rightarrow> string list
     \<Rightarrow> (int \<times> error option) outcome \<times> string list" where
  "RestoreDroplet c http unmarshal ID' imageID reqs =
     (case doGet c http unmarshal (Sprintf ''/droplets/%d/restore?image_id=%d'' [GoInt ID', GoInt imageID]) reqs of
        (Panic p, reqs') \<Rightarrow> (Panic p, reqs')
      | (Return (Inl err), reqs') \<Rightarrow> (Return (0, Some err), reqs')
      | (Return (Inr DOResp), reqs') \<Rightarrow>
          if EventID_DOResp.Status DOResp = StatusError then
            (Return (0, Some (Errorf ''could not restore droplet with ID %d: %v''
               [GoInt ID', GoString (EventID_DOResp.Message DOResp)])), reqs')
          else (Return (EventID_DOResp.EventID DOResp, None), reqs'))"

definition RebuildDroplet ::
  "Client \<Rightarrow> transport \<Rightarrow> (string \<Rightarrow> string + EventID_DOResp) \<Rightarrow> int \<Rightarrow> int \<Rightarrow> string list
     \<Rightarrow> (int \<times> error option) outcome \<times> string list" where
  "RebuildDroplet c http unmarshal ID' imageID reqs =
     (case doGet c http unmarshal (Sprintf ''/droplets/%d/rebuild?image_id=%d'' [GoInt ID', GoInt imageID]) reqs of
        (Panic p, reqs') \<Rightarrow> (Panic p, reqs')
      | (Return (Inl err), reqs') \<Rightarrow> (Return (0, Some err), reqs')
      | (Return (Inr DOResp), reqs') \<Rightarrow>
          if EventID_DOResp.Status DOResp = StatusError then
            (Return (0, Some (Errorf ''could not rebuild droplet with ID %d: %v''
               [GoInt ID', GoString (EventID_DOResp.Message DOResp)])), reqs')
          else (Return (EventID_DOResp.EventID DOResp, None), reqs'))"

definition RenameDroplet ::
  "Client \<Rightarrow> transport \<Rightarrow> (string \<Rightarrow> string + EventID_DOResp) \<Rightarrow> int \<Rightarrow> string \<Rightarrow> string list
     \<Rightarrow> (int \<times> error option) outcome \<times> string list" where
  "RenameDroplet c http unmarshal ID' name reqs =
     (case doGet c http unmarshal (Sprintf ''/droplets/%d/rename?name=%s'' [GoInt ID', GoString name]) reqs of
        (Panic p, reqs') \<Rightarrow> (Panic p, reqs')
      | (Return (Inl err), reqs') \<Rightarrow> (Return (0, Some err), reqs')
      | (Return (Inr DOResp), reqs') \<Rightarrow>
          if EventID_DOResp.Status DOResp = StatusError then
            (Return (0, Some (Errorf ''could not rename droplet with ID %d: %v''
               [GoInt ID', GoString (EventID_DOResp.Message DOResp)])), reqs')
          else (Return (EventID_DOResp.EventID DOResp, None), reqs'))"

section \<open>Domains\<close>

record Domain =
  ID :: int
  Name :: string
  TTL :: int
  LiveZoneFile :: string
  Error :: string
  ZoneFileWithError :: string

record PartialDomain =
  ID :: int
  Name :: string

record DomainRecord =
  ID :: int
  DomainID :: int
  RecordType :: string
  Name :: string
  Data :: string
  Priority :: int
  Port :: int
  Weight :: int

record Record_DOResp =
  Status :: string
  Record :: DomainRecord
  Message :: string

record CreateDomain_DOResp =
  Status :: string
  Domain :: PartialDomain
  Message :: string

record Status_DOResp =
  Status :: string
  Message :: string

record GetAllDomains_DOResp =
  Status :: string
  Domains :: "Domain list"
  Message :: string

record GetDomainByID_DOResp =
  Status :: string
  Domain :: Domain
  Message :: string

record Records_DOResp =
  Status :: string
  Records :: "DomainRecord list"
  Message :: string

text \<open>
  A \<^verbatim>\<open>net.IP\<close> is a slice of bytes; as an operand of \<^verbatim>\<open>Sprintf\<close> it prints what its
  method \<^verbatim>\<open>String\<close> returns, a function of the library that \<open>CreateDomain\<close> takes
  as \<open>IP_String\<close>.
\<close>

definition CreateDomain ::
  "Client \<Rightarrow> transport \<Rightarrow> (string \<Rightarrow> string + CreateDomain_DOResp) \<Rightarrow> (nat list \<Rightarrow> string)
     \<Rightarrow> string \<Rightarrow> nat list \<Rightarrow> string list
     \<Rightarrow> (PartialDomain option \<times> error option) outcome \<times> string list" where
  "CreateDomain c http unmarshal IP_String name IP reqs =
     (if name = [] then
        (Return (None, Some (Errorf ''name must be set'' [])), reqs)
      else if length IP = 0 then
        (Return (None, Some (Errorf ''IP address must be set and valid'' [])), reqs)
      else
        let s = Sprintf ''/domains/new?name=%s&ip_address=%s''
                  [GoString name, GoOther ''net.IP'' (\<lambda>verb. IP_String IP)]
        in case doGet c http unmarshal s reqs of
             (Panic p, reqs') \<Rightarrow> (Panic p, reqs')
           | (Return (Inl err), reqs') \<Rightarrow> (Return (None, Some err), reqs')
           | (Return (Inr DOResp), reqs') \<Rightarrow>
               if CreateDomain_DOResp.Status DOResp = StatusError then
                 (Return (None, Some (Errorf ''could not create domain: %v''
                    [GoString (CreateDomain_DOResp.Message DOResp)])), reqs')
               else (Return (Some (CreateDomain_DOResp.Domain DOResp), None), reqs'))"

definition DeleteDomainByID ::
  "Client \<Rightarrow> transport \<Rightarrow> (string \<Rightarrow> string + Status_DOResp) \<Rightarrow> iface \<Rightarrow> string list
     \<Rightarrow> error option outcome \<times> string list" where
  "DeleteDomainByID c http unmarshal ID' reqs =
     (case doGet c http unmarshal (Sprintf ''/domains/%v/destroy'' [ID']) reqs of
        (Panic p, reqs') \<Rightarrow> (Panic p, reqs')
      | (Return (Inl err), reqs') \<Rightarrow> (Return (Some err), reqs')
      | (Return (Inr DOResp), reqs') \<Rightarrow>
          if Status_DOResp.Status DOResp = StatusError then
            (Return (Some (Errorf ''could not delete domain with ID %v: %v''
               [ID', GoString (Status_DOResp.Message DOResp)])), reqs')
          else (Return None, reqs'))"

definition GetAllDomains ::
  "Client \<Rightarrow> transport \<Rightarrow> (string \<Rightarrow> string + GetAllDomains_DOResp) \<Rightarrow> string list
     \<Rightarrow> (Domain list \<times> error option) outcome \<times> string list" where
  "GetAllDomains c http unmarshal reqs =
     (case doGet c http unmarshal ''/domains'' reqs of
        (Panic p, reqs') \<Rightarrow> (Panic p, reqs')
      | (Return (Inl err), reqs') \<Rightarrow> (Return ([], Some err), reqs')
      | (Return (Inr DOResp), reqs') \<Rightarrow>
          if GetAllDomains_DOResp.Status DOResp = StatusError then
            (Return ([], Some (Errorf ''could not get domains: %v''
               [GoString (GetAllDomains_DOResp.Message DOResp)])), reqs')
          else (Return (GetAllDomains_DOResp.Domains DOResp, None), reqs'))"

definition GetDomainByID ::
  "Client \<Rightarrow> transport \<Rightarrow> (string \<Rightarrow> string + GetDomainByID_DOResp) \<Rightarrow> int \<Rightarrow> string list
     \<Rightarrow> (Domain option \<times> error option) outcome \<times> string list" where
  "GetDomainByID c http unmarshal ID' reqs =
     (case doGet c http unmarshal (Sprintf ''/domains/%d'' [GoInt ID']) reqs of
        (Panic p, reqs') \<Rightarrow> (Panic p, reqs')
      | (Return (Inl err), reqs') \<Rightarrow> (Return (None, Some err), reqs')
      | (Return (Inr DOResp), reqs') \<Rightarrow>
          if GetDomainByID_DOResp.Status DOResp = StatusError then
            (Return (None, Some (Errorf ''could not get domain with ID %d: %v''
               [GoInt ID', GoString (GetDomainByID_DOResp.Message DOResp)])), reqs')
          else (Return (Some (GetDomainByID_DOResp.Domain DOResp), None), reqs'))"

definition CreateDomainRecord ::
  "Client \<Rightarrow> transport \<Rightarrow> (string \<Rightarrow> string + Record_DOResp) \<Rightarrow> iface \<Rightarrow> DomainRecord
     \<Rightarrow> string list \<Rightarrow> (DomainRecord option \<times> error option) outcome \<times> string list" where
  "CreateDomainRecord c http unmarshal ID' r reqs =
     (if DomainRecord.RecordType r = [] then
        (Return (None, Some (Errorf ''record type must be set'' [])), reqs)
      else if DomainRecord.Data r = [] then
        (Return (None, Some (Errorf ''data value must be set'' [])), reqs)
      else
        let s = Sprintf ''/domains/%v/records/new?record_type=%s&data=%s''
                  [ID', GoString (DomainRecord.RecordType r), GoString (DomainRecord.Data r)];
            s = (if DomainRecord.Name r \<noteq> []
                 then s @ Sprintf ''&name=%s'' [GoString (DomainRecord.Name r)] else s);
            s = (if DomainRecord.Priority r \<noteq> 0
                 then s @ Sprintf ''&priority=%d'' [GoInt (DomainRecord.Priority r)] else s);
            s = (if DomainRecord.Port r \<noteq> 0
                 then s @ Sprintf ''&port=%d'' [GoInt (DomainRecord.Port r)] else s);
            s = (if DomainRecord.Weight r \<noteq> 0
                 then s @ Sprintf ''&weight=%d'' [GoInt (DomainRecord.Weight r)] else s)
        in case doGet c http unmarshal s reqs of
             (Panic p, reqs') \<Rightarrow> (Panic p, reqs')
           | (Return (Inl err), reqs') \<Rightarrow> (Return (None, Some err), reqs')
           | (Return (Inr DOResp), reqs') \<Rightarrow>
               if Record_DOResp.Status DOResp = StatusError then
                 (Return (None, Some (Errorf ''could not create record for domain %v: %v''
                    [ID', GoString (Record_DOResp.Message DOResp)])), reqs')
               else (Return (Some (Record_DOResp.Record DOResp), None), reqs'))"

definition GetAllRecordsByDomain ::
  "Client \<Rightarrow> transport \<Rightarrow> (string \<Rightarrow> string + Records_DOResp) \<Rightarrow> iface \<Rightarrow> string list
     \<Rightarrow> (DomainRecord list \<times> error option) outcome \<times> string list" where
  "GetAllRecordsByDomain c http unmarshal domainID reqs =
     (case doGet c http unmarshal (Sprintf ''/domains/%v/records'' [domainID]) reqs of
        (Panic p, reqs') \<Rightarrow> (Panic p, reqs')
      | (Return (Inl err), reqs') \<Rightarrow> (Return ([], Some err), reqs')
      | (Return (Inr DOResp), reqs') \<Rightarrow>
          if Records_DOResp.Status DOResp = StatusError then
            (Return ([], Some (Errorf ''could not get records for domain %v: %v''
               [domainID, GoString (Records_DOResp.Message DOResp)])), reqs')
          else (Return (Records_DOResp.Records DOResp, None), reqs'))"

definition GetRecordByDomain ::
  "Client \<Rightarrow> transport \<Rightarrow> (string \<Rightarrow> string + Record_DOResp) \<Rightarrow> iface \<Rightarrow> int \<Rightarrow> string list
     \<Rightarrow> (DomainRecord option \<times> error option) outcome \<times> string list" where
  "GetRecordByDomain c http unmarshal domainID ID' reqs =
     (case doGet c http unmarshal (Sprintf ''/domains/%v/records/%d'' [domainID, GoInt ID']) reqs of
        (Panic p, reqs') \<Rightarrow> (Panic p, reqs')
      | (Return (Inl err), reqs') \<Rightarrow> (Return (None, Some err), reqs')
      | (Return (Inr DOResp), reqs') \<Rightarrow>
          if Record_DOResp.Status DOResp = StatusError then
            (Return (None, Some (Errorf ''could not get record for domain %v with ID %d: %v''
               [domainID, GoInt ID', GoString (Record_DOResp.Message DOResp)])), reqs')
          else (Return (Some (Record_DOResp.Record DOResp), None), reqs'))"

text \<open>
  The format of \<open>UpdateRecordByDomain\<close> has three verbs and is given four
  operands, in the order of the source.
\<close>

definition UpdateRecordByDomain ::
  "Client \<Rightarrow> transport \<Rightarrow> (string \<Rightarrow> string + Record_DOResp) \<Rightarrow> iface \<Rightarrow> DomainRecord
     \<Rightarrow> string list \<Rightarrow> (DomainRecord option \<times> error option) outcome \<times> string list" where
  "UpdateRecordByDomain c http unmarshal domainID r reqs =
     (if DomainRecord.ID r = 0 then
        (Return (None, Some (Errorf ''record ID must be set'' [])), reqs)
      else if DomainRecord.RecordType r = [] then
        (Return (None, Some (Errorf ''record type must be set'' [])), reqs)
      else if DomainRecord.Data r = [] then
        (Return (None, Some (Errorf ''data value must be set'' [])), reqs)
      else
        let s = Sprintf ''/domains/%v/records/new?record_type=%s&data=%s''
                  [domainID, GoInt (DomainRecord.ID r), GoString (DomainRecord.RecordType r),
                   GoString (DomainRecord.Data r)];
            s = (if DomainRecord.Name r \<noteq> []
                 then s @ Sprintf ''&name=%s'' [GoString (DomainRecord.Name r)] else s);
            s = (if DomainRecord.Priority r \<noteq> 0
                 then s @ Sprintf ''&priority=%d'' [GoInt (DomainRecord.Priority r)] else s);
            s = (if DomainRecord.Port r \<noteq> 0
                 then s @ Sprintf ''&port=%d'' [GoInt (DomainRecord.Port r)] else s);
            s = (if DomainRecord.Weight r \<noteq> 0
                 then s @ Sprintf ''&weight=%d'' [GoInt (DomainRecord.Weight r)] else s)
        in case doGet c http unmarshal s reqs of
             (Panic p, reqs') \<Rightarrow> (Panic p, reqs')
           | (Return (Inl err), reqs') \<Rightarrow> (Return (None, Some err), reqs')
           | (Return (Inr DOResp), reqs') \<Rightarrow>
               if Record_DOResp.Status DOResp = StatusError then
                 (Return (None, Some (Errorf ''could not create record %d for domain %v: %v''
                    [GoInt (DomainRecord.ID r), domainID,
                     GoString (Record_DOResp.Message DOResp)])), reqs')
               else (Return (Some (Record_DOResp.Record DOResp), None), reqs'))"

text \<open>The error text of \<open>DeleteRecordByDomain\<close> is given the domain for \<^verbatim>\<open>%d\<close> and the record id for \<^verbatim>\<open>%v\<close>, as in the source.\<close>

definition DeleteRecordByDomain ::
  "Client \<Rightarrow> transport \<Rightarrow> (string \<Rightarrow> string + Status_DOResp) \<Rightarrow> iface \<Rightarrow> int \<Rightarrow> string list
     \<Rightarrow> error option outcome \<times> string list" where
  "DeleteRecordByDomain c http unmarshal domainID ID' reqs =
     (case doGet c http unmarshal (Sprintf ''/domains/%v/records/%d/destroy'' [domainID, GoInt ID']) reqs of
        (Panic p, reqs') \<Rightarrow> (Panic p, reqs')
      | (Return (Inl err), reqs') \<Rightarrow> (Return (Some err), reqs')
      | (Return (Inr DOResp), reqs') \<Rightarrow>
          if Status_DOResp.Status DOResp = StatusError then
            (Return (Some (Errorf ''could not delete record %d for domain with ID %v: %v''
               [domainID, GoInt ID', GoString (Status_DOResp.Message DOResp)])), reqs')
          else (Return None, reqs'))"

section \<open>Images (images.go)\<close>

record Image =
  ID :: int
  Name :: string
  Distribution :: string
  Slug :: string
  Public :: bool
  RegionIDs :: "int list"
  RegionSlugs :: "string list"

record GetAllImages_DOResp =
  Status :: string
  Images :: "Image list"
  Message :: string

record GetImageByID_DOResp =
  Status :: string
  Image :: Image
  Message :: string

text \<open>
  The operations on an image take an id that is a string or an int: the inner
  \<open>case\<close> is the type switch, whose one branch for both types formats the
  endpoint, \<open>None\<close> its default branch.
\<close>

definition DeleteImage ::
  "Client \<Rightarrow> transport \<Rightarrow> (string \<Rightarrow> string + Status_DOResp) \<Rightarrow> iface \<Rightarrow> string list
     \<Rightarrow> error option outcome \<times> string list" where
  "DeleteImage c http unmarshal ID' reqs =
     (case (case ID' of
              GoString _ \<Rightarrow> Some (Sprintf ''/images/%v/destroy'' [ID'])
            | GoInt _ \<Rightarrow> Some (Sprintf ''/images/%v/destroy'' [ID'])
            | GoOther _ _ \<Rightarrow> None) of
        None \<Rightarrow> (Return (Some (Errorf ''ID must be either a string or integer'' [])), reqs)
      | Some s \<Rightarrow>
          (case doGet c http unmarshal s reqs of
             (Panic p, reqs') \<Rightarrow> (Panic p, reqs')
           | (Return (Inl err), reqs') \<Rightarrow> (Return (Some err), reqs')
           | (Return (Inr DOResp), reqs') \<Rightarrow>
               if Status_DOResp.Status DOResp = StatusError then
                 (Return (Some (Errorf ''could not delete image with ID %v: %v''
                    [ID', GoString (Status_DOResp.Message DOResp)])), reqs')
               else (Return None, reqs')))"

definition GetAllImages ::
  "Client \<Rightarrow> transport \<Rightarrow> (string \<Rightarrow> string + GetAllImages_DOResp) \<Rightarrow> string list
     \<Rightarrow> (Image list \<times> error option) outcome \<times> string list" where
  "GetAllImages c http unmarshal reqs =
     (case doGet c http unmarshal ''/images'' reqs of
        (Panic p, reqs') \<Rightarrow> (Panic p, reqs')
      | (Return (Inl err), reqs') \<Rightarrow> (Return ([], Some err), reqs')
      | (Return (Inr DOResp), reqs') \<Rightarrow>
          if GetAllImages_DOResp.Status DOResp = StatusError then
            (Return ([], Some (Errorf ''could not get images: %v''
               [GoString (GetAllImages_DOResp.Message DOResp)])), reqs')
          else (Return (GetAllImages_DOResp.Images DOResp, None), reqs'))"

definition GetImageByID ::
  "Client \<Rightarrow> transport \<Rightarrow> (string \<Rightarrow> string + GetImageByID_DOResp) \<Rightarrow> iface \<Rightarrow> string list
     \<Rightarrow> (Image option \<times> error option) outcome \<times> string list" where
  "GetImageByID c http unmarshal ID' reqs =
     (case (case ID' of
              GoString _ \<Rightarrow> Some (Sprintf ''/images/%v'' [ID'])
            | GoInt _ \<Rightarrow> Some (Sprintf ''/images/%v'' [ID'])
            | GoOther _ _ \<Rightarrow> None) of
        None \<Rightarrow> (Return (None, Some (Errorf ''ID must be either a string or integer'' [])), reqs)
      | Some s \<Rightarrow>
          (case doGet c http unmarshal s reqs of
             (Panic p, reqs') \<Rightarrow> (Panic p, reqs')
           | (Return (Inl err), reqs') \<Rightarrow> (Return (None, Some err), reqs')
           | (Return (Inr DOResp), reqs') \<Rightarrow>
               if GetImageByID_DOResp.Status DOResp = StatusError then
                 (Return (None, Some (Errorf ''could not get image with ID %v: %v''
                    [ID', GoString (GetImageByID_DOResp.Message DOResp)])), reqs')
               else (Return (Some (GetImageByID_DOResp.Image DOResp), None), reqs')))"

definition TransferImage ::
  "Client \<Rightarrow> transport \<Rightarrow> (string \<Rightarrow> string + EventID_DOResp) \<Rightarrow> iface \<Rightarrow> int \<Rightarrow> string list
     \<Rightarrow> (int \<times> error option) outcome \<times> string list" where
  "TransferImage c http unmarshal ID' regionID reqs =
     (case (case ID' of
              GoString _ \<Rightarrow> Some (Sprintf ''/images/%v/transfer?region_id=%d'' [ID', GoInt regionID])
            | GoInt _ \<Rightarrow> Some (Sprintf ''/images/%v/transfer?region_id=%d'' [ID', GoInt regionID])
            | GoOther _ _ \<Rightarrow> None) of
        None \<Rightarrow> (Return (0, Some (Errorf ''ID must be either a string or integer'' [])), reqs)
      | Some s \<Rightarrow>
          (case doGet c http unmarshal s reqs of
             (Panic p, reqs') \<Rightarrow> (Panic p, reqs')
           | (Return (Inl err), reqs') \<Rightarrow> (Return (0, Some err), reqs')
           | (Return (Inr DOResp), reqs') \<Rightarrow>
               if EventID_DOResp.Status DOResp = StatusError then
                 (Return (0, Some (Errorf ''could not transfer image with ID %v: %v''
                    [ID', GoString (EventID_DOResp.Message DOResp)])), reqs')
               else (Return (EventID_DOResp.EventID DOResp, None), reqs')))"

section \<open>The text of an error\<close>

text \<open>\<^verbatim>\<open>err.Error()\<close>: the text of an error.\<close>

fun Error :: "error \<Rightarrow> string" where
  "Error (ErrorString s) = s"
| "Error (HttpError s) = s"
| "Error (ReadError s) = s"
| "Error (JsonError s) = s"

section \<open>The operations of the client\<close>

text \<open>
  A call of the client: one of its thirty-one operations with its arguments.
\<close>

datatype operation =
    OpGetEventByID int
  | OpGetAllRegions
  | OpGetAllSizes
  | OpCreateDroplet NewDroplet
  | OpDeleteDropletByID int
  | OpGetAllDroplets
  | OpGetDropletByID int
  | OpRebootDroplet int
  | OpPowerCycleDroplet int
  | OpShutDownDroplet int
  | OpPowerOffDroplet int
  | OpPowerOnDroplet int
  | OpResetRootPassDroplet int
  | OpResizeDroplet int iface
  | OpTakeSnapshotOnDroplet int string
  | OpRestoreDroplet int int
  | OpRebuildDroplet int int
  | OpRenameDroplet int string
  | OpCreateDomain string "nat list"
  | OpDeleteDomainByID iface
  | OpGetAllDomains
  | OpGetDomainByID int
  | OpCreateDomainRecord iface DomainRecord
  | OpGetAllRecordsByDomain iface
  | OpGetRecordByDomain iface int
  | OpUpdateRecordByDomain iface DomainRecord
  | OpDeleteRecordByDomain iface int
  | OpDeleteImage iface
  | OpGetAllImages
  | OpGetImageByID iface
  | OpTransferImage iface int

text \<open>
  The decoders of the envelopes, one for each shape that an operation decodes
  into, and the method \<^verbatim>\<open>String\<close> of \<^verbatim>\<open>net.IP\<close>.
\<close>

record decoders =
  unmarshal_Event :: "string \<Rightarrow> string + GetEventByID_DOResp"
  unmarshal_Regions :: "string \<Rightarrow> string + GetAllRegions_DOResp"
  unmarshal_Sizes :: "string \<Rightarrow> string + GetAllSizes_DOResp"
  unmarshal_PartialDroplet :: "string \<Rightarrow> string + CreateDroplet_DOResp"
  unmarshal_EventID :: "string \<Rightarrow> string + EventID_DOResp"
  unmarshal_Droplets :: "string \<Rightarrow> string + GetAllDroplets_DOResp"
  unmarshal_Droplet :: "string \<Rightarrow> string + GetDropletByID_DOResp"
  unmarshal_PartialDomain :: "string \<Rightarrow> string + CreateDomain_DOResp"
  unmarshal_Status :: "string \<Rightarrow> string + Status_DOResp"
  unmarshal_Domains :: "string \<Rightarrow> string + GetAllDomains_DOResp"
  unmarshal_Domain :: "string \<Rightarrow> string + GetDomainByID_DOResp"
  unmarshal_Record :: "string \<Rightarrow> string + Record_DOResp"
  unmarshal_Records :: "string \<Rightarrow> string + Records_DOResp"
  unmarshal_Images :: "string \<Rightarrow> string + GetAllImages_DOResp"
  unmarshal_Image :: "string \<Rightarrow> string + GetImageByID_DOResp"
  IP_String :: "nat list \<Rightarrow> string"

text \<open>What a call gives back beside its error, whatever the operation.\<close>

datatype answer =
    AEvent "Event option" | ARegions "Region list" | ASizes "Size list"
  | APartialDroplet "PartialDroplet option" | AEventID int | ADroplets "Droplet list"
  | ADroplet "Droplet option" | APartialDomain "PartialDomain option" | ADomains "Domain list"
  | ADomain "Domain option" | ARecord "DomainRecord option" | ARecords "DomainRecord list"
  | AImages "Image list" | AImage "Image option" | ANothing

text \<open>\<open>perform\<close> makes the call: it hands the arguments to the operation named.\<close>

fun perform ::
  "Client \<Rightarrow> transport \<Rightarrow> decoders \<Rightarrow> operation \<Rightarrow> string list
     \<Rightarrow> (answer \<times> error option) outcome \<times> string list" where
  "perform c http d (OpGetEventByID x) reqs =
     map_prod (map_outcome (map_prod AEvent id)) id (GetEventByID c http (unmarshal_Event d) x reqs)"
| "perform c http d OpGetAllRegions reqs =
     map_prod (map_outcome (map_prod ARegions id)) id (GetAllRegions c http (unmarshal_Regions d) reqs)"
| "perform c http d OpGetAllSizes reqs =
     map_prod (map_outcome (map_prod ASizes id)) id (GetAllSizes c http (unmarshal_Sizes d) reqs)"
| "perform c http d (OpCreateDroplet x) reqs =
     map_prod (map_outcome (map_prod APartialDroplet id)) id (CreateDroplet c http (unmarshal_PartialDroplet d) x reqs)"
| "perform c http d (OpDeleteDropletByID x) reqs =
     map_prod (map_outcome (map_prod AEventID id)) id (DeleteDropletByID c http (unmarshal_EventID d) x reqs)"
| "perform c http d OpGetAllDroplets reqs =
     map_prod (map_outcome (map_prod ADroplets id)) id (GetAllDroplets c http (unmarshal_Droplets d) reqs)"
| "perform c http d (OpGetDropletByID x) reqs =
     map_prod (map_outcome (map_prod ADroplet id)) id (GetDropletByID c http (unmarshal_Droplet d) x reqs)"
| "perform c http d (OpRebootDroplet x) reqs =
     map_prod (map_outcome (map_prod AEventID id)) id (RebootDroplet c http (unmarshal_EventID d) x reqs)"
| "perform c http d (OpPowerCycleDroplet x) reqs =
     map_prod (map_outcome (map_prod AEventID id)) id (PowerCycleDroplet c http (unmarshal_EventID d) x reqs)"
| "perform c http d (OpShutDownDroplet x) reqs =
     map_prod (map_outcome (map_prod AEventID id)) id (ShutDownDroplet c http (unmarshal_EventID d) x reqs)"
| "perform c http d (OpPowerOffDroplet x) reqs =
     map_prod (map_outcome (map_prod AEventID id)) id (PowerOffDroplet c http (unmarshal_EventID d) x reqs)"
| "perform c http d (OpPowerOnDroplet x) reqs =
     map_prod (map_outcome (map_prod AEventID id)) id (PowerOnDroplet c http (unmarshal_EventID d) x reqs)"
| "perform c http d (OpResetRootPassDroplet x) reqs =
     map_prod (map_outcome (map_prod AEventID id)) id (ResetRootPassDroplet c http (unmarshal_EventID d) x reqs)"
| "perform c http d (OpResizeDroplet x y) reqs =
     map_prod (map_outcome (map_prod AEventID id)) id (ResizeDroplet c http (unmarshal_EventID d) x y reqs)"
| "perform c http d (OpTakeSnapshotOnDroplet x y) reqs =
     map_prod (map_outcome (map_prod AEventID id)) id (TakeSnapshotOnDroplet c http (unmarshal_EventID d) x y reqs)"
| "perform c http d (OpRestoreDroplet x y) reqs =
     map_prod (map_outcome (map_prod AEventID id)) id (RestoreDroplet c http (unmarshal_EventID d) x y reqs)"
| "perform c http d (OpRebuildDroplet x y) reqs =
     map_prod (map_outcome (map_prod AEventID id)) id (RebuildDroplet c http (unmarshal_EventID d) x y reqs)"
| "perform c http d (OpRenameDroplet x y) reqs =
     map_prod (map_outcome (map_prod AEventID id)) id (RenameDroplet c http (unmarshal_EventID d) x y reqs)"
| "perform c http d (OpCreateDomain x y) reqs =
     map_prod (map_outcome (map_prod APartialDomain id)) id (CreateDomain c http (unmarshal_PartialDomain d) (IP_String d) x y reqs)"
| "perform c http d (OpDeleteDomainByID x) reqs =
     map_prod (map_outcome (Pair ANothing)) id (DeleteDomainByID c http (unmarshal_Status d) x reqs)"
| "perform c http d OpGetAllDomains reqs =
     map_prod (map_outcome (map_prod ADomains id)) id (GetAllDomains c http (unmarshal_Domains d) reqs)"
| "perform c http d (OpGetDomainByID x) reqs =
     map_prod (map_outcome (map_prod ADomain id)) id (GetDomainByID c http (unmarshal_Domain d) x reqs)"
| "perform c http d (OpCreateDomainRecord x y) reqs =
     map_prod (map_outcome (map_prod ARecord id)) id (CreateDomainRecord c http (unmarshal_Record d) x y reqs)"
| "perform c http d (OpGetAllRecordsByDomain x) reqs =
     map_prod (map_outcome (map_prod ARecords id)) id (GetAllRecordsByDomain c http (unmarshal_Records d) x reqs)"
| "perform c http d (OpGetRecordByDomain x y) reqs =
     map_prod (map_outcome (map_prod ARecord id)) id (GetRecordByDomain c http (unmarshal_Record d) x y reqs)"
| "perform c http d (OpUpdateRecordByDomain x y) reqs =
     map_prod (map_outcome (map_prod ARecord id)) id (UpdateRecordByDomain c http (unmarshal_Record d) x y reqs)"
| "perform c http d (OpDeleteRecordByDomain x y) reqs =
     map_prod (map_outcome (Pair ANothing)) id (DeleteRecordByDomain c http (unmarshal_Status d) x y reqs)"
| "perform c http d (OpDeleteImage x) reqs =
     map_prod (map_outcome (Pair ANothing)) id (DeleteImage c http (unmarshal_Status d) x reqs)"
| "perform c http d OpGetAllImages reqs =
     map_prod (map_outcome (map_prod AImages id)) id (GetAllImages c http (unmarshal_Images d) reqs)"
| "perform c http d (OpGetImageByID x) reqs =
     map_prod (map_outcome (map_prod AImage id)) id (GetImageByID c http (unmarshal_Image d) x reqs)"
| "perform c http d (OpTransferImage x y) reqs =
     map_prod (map_outcome (map_prod AEventID id)) id (TransferImage c http (unmarshal_EventID d) x y reqs)"

section \<open>Notions of the specification\<close>

text \<open>
  The selectors of a new droplet that are supplied in neither form, by name, in
  the order size, image, region.
\<close>

definition missing_selectors :: "NewDroplet \<Rightarrow> string list" where
  "missing_selectors n =
     (if NewDroplet.SizeID n = 0 \<and> NewDroplet.SizeSlug n = [] then [''size''] else [])
     @ (if NewDroplet.ImageID n = 0 \<and> NewDroplet.ImageSlug n = [] then [''image''] else [])
     @ (if NewDroplet.RegionID n = 0 \<and> NewDroplet.RegionSlug n = [] then [''region''] else [])"

text \<open>
  An optional query parameter: \<^verbatim>\<open>&key=value\<close> when the caller supplied the field,
  nothing at all when the field has its zero value.
\<close>

definition optional_param :: "string \<Rightarrow> bool \<Rightarrow> string \<Rightarrow> string" where
  "optional_param key supplied v = (if supplied then ''&'' @ key @ ''='' @ v else [])"

text \<open>
  An operation reaches the network through \<open>doGet\<close> only: it leaves the list of
  requests as it was, or adds the URL that \<open>doGet\<close> composes for some endpoint.
\<close>

definition requests_via_doGet :: "Client \<Rightarrow> string list \<Rightarrow> string list \<Rightarrow> bool" where
  "requests_via_doGet c reqs reqs' =
     (reqs' = reqs \<or> (\<exists>endpoint. reqs' = reqs @ [doGet_url c endpoint]))"

text \<open>
  A URL is well formed when it has exactly one \<^verbatim>\<open>?\<close> and no \<^verbatim>\<open>&\<close> before it.
\<close>

definition well_formed_url :: "string \<Rightarrow> bool" where
  "well_formed_url url =
     (length (filter (\<lambda>ch. ch = CHR ''?'') url) = 1
      \<and> CHR ''&'' \<notin> set (takeWhile (\<lambda>ch. ch \<noteq> CHR ''?'') url))"

text \<open>
  The query parameters of the request that a URL stands for, as \<^verbatim>\<open>url.Parse\<close> and
  the server read them: the fragment, from the first \<^verbatim>\<open>#\<close> on, is cut off and
  never sent; the query is what follows the first \<^verbatim>\<open>?\<close> of the rest, cut at every
  \<^verbatim>\<open>&\<close>, each piece cut at its first \<^verbatim>\<open>=\<close> into a key and a value. Keys and values
  are kept as they are written in the URL. \<open>split_acc sep acc s\<close> cuts \<open>s\<close> at every
  \<open>sep\<close>, \<open>acc\<close> being the piece read so far.
\<close>

fun split_acc :: "char \<Rightarrow> string \<Rightarrow> string \<Rightarrow> string list" where
  "split_acc sep acc [] = [acc]"
| "split_acc sep acc (ch # s) =
     (if ch = sep then acc # split_acc sep [] s else split_acc sep (acc @ [ch]) s)"

definition key_value :: "string \<Rightarrow> string \<times> string" where
  "key_value kv =
     (takeWhile (\<lambda>ch. ch \<noteq> CHR ''='') kv, tl (dropWhile (\<lambda>ch. ch \<noteq> CHR ''='') kv))"

definition query_params :: "string \<Rightarrow> (string \<times> string) list" where
  "query_params url =
     (let sent = takeWhile (\<lambda>ch. ch \<noteq> CHR ''#'') url
      in if CHR ''?'' \<in> set sent
         then map key_value
                (split_acc (CHR ''&'') [] (tl (dropWhile (\<lambda>ch. ch \<noteq> CHR ''?'') sent)))
         else [])"

text \<open>A list of parameters written as a query: \<^verbatim>\<open>key=value\<close>, joined by \<^verbatim>\<open>&\<close>.\<close>

definition encode_params :: "(string \<times> string) list \<Rightarrow> string" where
  "encode_params ps = Join (map (\<lambda>(k, v). k @ ''='' @ v) ps) ''&''"

text \<open>The credentials that end every query.\<close>

definition credentials :: "Client \<Rightarrow> (string \<times> string) list" where
  "credentials c = [(''client_id'', ClientID c), (''api_key'', APIKey c)]"

text \<open>The last two query parameters of a URL are the stored credentials.\<close>

definition credentials_last :: "Client \<Rightarrow> string \<Rightarrow> bool" where
  "credentials_last c url =
     (let ps = query_params url in drop (length ps - 2) ps = credentials c)"

text \<open>
  The parameters of a new domain record: the record type and the data, then
  each optional field that is supplied, and no entry for one that is not.
\<close>

definition record_params :: "DomainRecord \<Rightarrow> (string \<times> string) list" where
  "record_params r =
     [(''record_type'', DomainRecord.RecordType r), (''data'', DomainRecord.Data r)]
     @ (if DomainRecord.Name r \<noteq> [] then [(''name'', DomainRecord.Name r)] else [])
     @ (if DomainRecord.Priority r \<noteq> 0
        then [(''priority'', fmtd (DomainRecord.Priority r))] else [])
     @ (if DomainRecord.Port r \<noteq> 0 then [(''port'', fmtd (DomainRecord.Port r))] else [])
     @ (if DomainRecord.Weight r \<noteq> 0 then [(''weight'', fmtd (DomainRecord.Weight r))] else [])"

text \<open>
  The parameters of a new droplet: the name and the three selectors, then the
  list of ssh keys when it is not empty and each flag when it is set.
\<close>

definition droplet_params :: "NewDroplet \<Rightarrow> (string \<times> string) list" where
  "droplet_params n =
     [(''name'', NewDroplet.Name n),
      (if NewDroplet.SizeID n \<noteq> 0 then (''size_id'', fmtd (NewDroplet.SizeID n))
       else (''size_slug'', NewDroplet.SizeSlug n)),
      (if NewDroplet.ImageID n \<noteq> 0 then (''image_id'', fmtd (NewDroplet.ImageID n))
       else (''image_slug'', NewDroplet.ImageSlug n)),
      (if NewDroplet.RegionID n \<noteq> 0 then (''region_id'', fmtd (NewDroplet.RegionID n))
       else (''region_slug'', NewDroplet.RegionSlug n))]
     @ (if NewDroplet.SSHKeyIDs n \<noteq> []
        then [(''ssh_key_ids'', Join (NewDroplet.SSHKeyIDs n) '','')] else [])
     @ (if NewDroplet.PrivateNetworking n then [(''private_networking'', ''true'')] else [])
     @ (if NewDroplet.BackupsEnabled n then [(''backups_enabled'', ''true'')] else [])"

section \<open>Evaluating the library functions\<close>

declare Sprintf.simps [simp del]

lemmas Sprintf_eval = Sprintf.simps extra_args_def badVerb_def

lemma printArg_v: "printArg x (CHR ''v'') = fmt_v x"
  by (cases x) simp_all

lemma Contains_char: "Contains s [x] \<longleftrightarrow> x \<in> set s"
  by (induction s) auto

lemma HasPrefix_iff_append: "HasPrefix u v \<longleftrightarrow> (\<exists>q. u = v @ q)"
  by (induction u v rule: HasPrefix.induct) auto

lemma Contains_iff_ex: "Contains s sub \<longleftrightarrow> (\<exists>p q. s = p @ sub @ q)"
proof (induction s)
  case Nil
  then show ?case by auto
next
  case (Cons ch cs)
  show ?case
  proof
    assume "Contains (ch # cs) sub"
    then consider "HasPrefix (ch # cs) sub" | "Contains cs sub" by auto
    then show "\<exists>p q. ch # cs = p @ sub @ q"
    proof cases
      case 1
      then obtain q where "ch # cs = [] @ sub @ q" by (auto simp: HasPrefix_iff_append)
      then show ?thesis by blast
    next
      case 2
      then obtain p q where "cs = p @ sub @ q" using Cons.IH by auto
      then have "ch # cs = (ch # p) @ sub @ q" by simp
      then show ?thesis by blast
    qed
  next
    assume "\<exists>p q. ch # cs = p @ sub @ q"
    then obtain p q where pq: "ch # cs = p @ sub @ q" by auto
    show "Contains (ch # cs) sub"
    proof (cases p)
      case Nil
      then have "HasPrefix (ch # cs) sub" using pq by (auto simp: HasPrefix_iff_append)
      then show ?thesis by simp
    next
      case (Cons a p')
      then have "cs = p' @ sub @ q" using pq by simp
      then show ?thesis using Cons.IH by auto
    qed
  qed
qed

lemma Contains_middle: "Contains (p @ sub @ q) sub"
  unfolding Contains_iff_ex by blast

lemma Sprintf_formats:
  "Sprintf ''/droplets/new?name=%s'' [GoString x] = ''/droplets/new?name='' @ x"
  "Sprintf ''&size_id=%d'' [GoInt i] = ''&size_id='' @ fmtd i"
  "Sprintf ''&image_id=%d'' [GoInt i] = ''&image_id='' @ fmtd i"
  "Sprintf ''&region_id=%d'' [GoInt i] = ''&region_id='' @ fmtd i"
  "Sprintf ''/droplets/%d'' [GoInt i] = ''/droplets/'' @ fmtd i"
  "Sprintf ''/droplets/%d/resize'' [GoInt i] = ''/droplets/'' @ fmtd i @ ''/resize''"
  "Sprintf ''&size_slug=%s'' [GoString x] = ''&size_slug='' @ x"
  "Sprintf ''/droplets/%d/snapshot'' [GoInt i] = ''/droplets/'' @ fmtd i @ ''/snapshot''"
  "Sprintf ''&name=%s'' [GoString x] = ''&name='' @ x"
  "Sprintf ''&priority=%d'' [GoInt i] = ''&priority='' @ fmtd i"
  "Sprintf ''&port=%d'' [GoInt i] = ''&port='' @ fmtd i"
  "Sprintf ''&weight=%d'' [GoInt i] = ''&weight='' @ fmtd i"
  "Sprintf ''/domains/%v/records/new?record_type=%s&data=%s'' [v, GoString x, GoString y] =
     ''/domains/'' @ fmt_v v @ ''/records/new?record_type='' @ x @ ''&data='' @ y"
  "Sprintf ''/domains/%v/records/new?record_type=%s&data=%s'' [v, GoInt i, GoString x, GoString y] =
     ''/domains/'' @ fmt_v v @ ''/records/new?record_type=%!s(int='' @ fmtd i @ '')&data='' @ x
       @ ''%!(EXTRA string='' @ y @ '')''"
  by (simp_all add: Sprintf_eval printArg_v)

lemma Errorf_plain:
  "Errorf ''size ID or slug must be set'' [] = ErrorString ''size ID or slug must be set''"
  "Errorf ''image ID or slug must be set'' [] = ErrorString ''image ID or slug must be set''"
  "Errorf ''region ID or slug must be set'' [] = ErrorString ''region ID or slug must be set''"
  "Errorf ''size must be either a string or integer'' [] =
     ErrorString ''size must be either a string or integer''"
  "Errorf ''record ID must be set'' [] = ErrorString ''record ID must be set''"
  "Errorf ''record type must be set'' [] = ErrorString ''record type must be set''"
  "Errorf ''data value must be set'' [] = ErrorString ''data value must be set''"
  by (simp_all add: Errorf_def Sprintf_eval)

subsection \<open>The characters of a decimal rendering\<close>

lemma digit_char_neq:
  assumes "k < 10" and "ch \<notin> set ''0123456789''"
  shows "''0123456789'' ! k \<noteq> ch"
proof
  assume eq: "''0123456789'' ! k = ch"
  have "''0123456789'' ! k \<in> set ''0123456789''"
    by (rule nth_mem) (use assms(1) in simp)
  then have "ch \<in> set ''0123456789''" by (simp only: eq)
  with assms(2) show False by (rule notE)
qed

lemma digits_avoid:
  assumes "ch \<notin> set ''0123456789''"
  shows "ch \<notin> set (digits n)"
proof (induction n rule: digits.induct)
  case (1 n)
  show ?case
  proof (cases "n < 10")
    case True
    have "digits n = [''0123456789'' ! n]" using True by (subst digits.simps) simp
    then show ?thesis using digit_char_neq[OF True assms] by (simp only: list.set) blast
  next
    case False
    have "n mod 10 < 10" by simp
    then have m: "''0123456789'' ! (n mod 10) \<noteq> ch" using assms by (rule digit_char_neq)
    have d: "digits n = digits (n div 10) @ [''0123456789'' ! (n mod 10)]"
      using False by (subst digits.simps) simp
    have ih: "ch \<notin> set (digits (n div 10))" using False 1 by blast
    show ?thesis unfolding d using m ih by (simp only: set_append list.set) blast
  qed
qed

lemma fmtd_avoid:
  assumes "ch \<notin> set ''-0123456789''"
  shows "ch \<notin> set (fmtd i)"
proof -
  have d: "ch \<notin> set ''0123456789''" and m: "ch \<noteq> CHR ''-''" using assms by simp_all
  show ?thesis using digits_avoid[OF d] m by (simp add: fmtd_def)
qed

lemma fmtd_no_question: "CHR ''?'' \<notin> set (fmtd i)"
  by (rule fmtd_avoid) simp

lemma fmtd_no_amp: "CHR ''&'' \<notin> set (fmtd i)"
  by (rule fmtd_avoid) simp

lemma fmtd_no_hash: "CHR ''#'' \<notin> set (fmtd i)"
  by (rule fmtd_avoid) simp

subsection \<open>Joining\<close>

lemma Join_avoid:
  "(\<forall>x \<in> set xs. ch \<notin> set x) \<Longrightarrow> ch \<notin> set sep \<Longrightarrow> ch \<notin> set (Join xs sep)"
  by (induction xs sep rule: Join.induct) auto

lemma Join_comma_amp:
  "(\<forall>k \<in> set ks. CHR ''&'' \<notin> set k) \<Longrightarrow> CHR ''&'' \<notin> set (Join ks '','')"
  by (rule Join_avoid) simp_all

lemma Join_comma_hash:
  "(\<forall>k \<in> set ks. CHR ''#'' \<notin> set k) \<Longrightarrow> CHR ''#'' \<notin> set (Join ks '','')"
  by (rule Join_avoid) simp_all

section \<open>Reading a query back\<close>

lemma split_acc_append:
  "sep \<notin> set a \<Longrightarrow> split_acc sep acc (a @ b) = split_acc sep (acc @ a) b"
  by (induction a arbitrary: acc) auto

lemma split_acc_sep:
  "split_acc sep acc (a @ sep # b) = split_acc sep acc a @ split_acc sep [] b"
  by (induction a arbitrary: acc) auto

lemma split_acc_plain: "sep \<notin> set a \<Longrightarrow> split_acc sep acc a = [acc @ a]"
  using split_acc_append[of sep a acc "[]"] by simp

lemma split_acc_Join:
  assumes "\<forall>x \<in> set xs. sep \<notin> set x" and "xs \<noteq> []"
  shows "split_acc sep acc (Join xs [sep]) = (acc @ hd xs) # tl xs"
  using assms
proof (induction xs "[sep]" arbitrary: acc rule: Join.induct)
  case 1
  then show ?case by simp
next
  case (2 x)
  then show ?case using split_acc_append[of sep x acc "[]"] by simp
next
  case (3 x y ys)
  have "split_acc sep acc (Join (x # y # ys) [sep]) = split_acc sep (acc @ x) (sep # Join (y # ys) [sep])"
    using 3(2) split_acc_append[of sep x acc "sep # Join (y # ys) [sep]"] by simp
  also have "\<dots> = (acc @ x) # split_acc sep [] (Join (y # ys) [sep])" by simp
  also have "\<dots> = (acc @ x) # y # ys" using 3 by simp
  finally show ?case by simp
qed

lemma key_value_pair: "CHR ''='' \<notin> set k \<Longrightarrow> key_value (k @ CHR ''='' # v) = (k, v)"
proof -
  assume k: "CHR ''='' \<notin> set k"
  have t: "takeWhile (\<lambda>ch. ch \<noteq> CHR ''='') (k @ CHR ''='' # v) = k"
    using k by (induction k) auto
  have d: "dropWhile (\<lambda>ch. ch \<noteq> CHR ''='') (k @ CHR ''='' # v) = CHR ''='' # v"
    using k by (induction k) auto
  show ?thesis by (simp add: key_value_def t d)
qed

lemma dropWhile_until_append:
  "x \<in> set xs \<Longrightarrow> dropWhile (\<lambda>ch. ch \<noteq> x) (xs @ ys) = dropWhile (\<lambda>ch. ch \<noteq> x) xs @ ys"
  by (induction xs) auto

lemma query_params_whole:
  assumes "CHR ''#'' \<notin> set url"
  shows "query_params url =
     (if CHR ''?'' \<in> set url
      then map key_value
             (split_acc (CHR ''&'') [] (tl (dropWhile (\<lambda>ch. ch \<noteq> CHR ''?'') url)))
      else [])"
proof -
  have tw: "takeWhile (\<lambda>ch. ch \<noteq> CHR ''#'') url = url"
    using assms by (induction url) auto
  show ?thesis by (simp only: query_params_def Let_def tw)
qed

lemma encode_params_hash:
  assumes "list_all (\<lambda>(k, v). CHR ''#'' \<notin> set k \<and> CHR ''#'' \<notin> set v) ps"
  shows "CHR ''#'' \<notin> set (encode_params ps)"
  unfolding encode_params_def
  using assms by (intro Join_avoid) (auto simp: list_all_iff)

lemma credentials_last_append:
  "query_params url = ps @ credentials c \<Longrightarrow> credentials_last c url"
  by (simp add: credentials_last_def credentials_def)

lemma query_params_encode:
  assumes "CHR ''?'' \<notin> set pre" and "ps \<noteq> []"
    and nofrag: "CHR ''#'' \<notin> set pre" "CHR ''#'' \<notin> set (encode_params ps)"
    and safe_ps: "list_all (\<lambda>(k, v). CHR ''='' \<notin> set k \<and> CHR ''&'' \<notin> set k \<and> CHR ''&'' \<notin> set v) ps"
  shows "query_params (pre @ ''?'' @ encode_params ps) = ps"
proof -
  have all: "\<forall>(k, v) \<in> set ps. CHR ''='' \<notin> set k \<and> CHR ''&'' \<notin> set k \<and> CHR ''&'' \<notin> set v"
    using safe_ps by (simp add: list_all_iff)
  let ?kvs = "map (\<lambda>(k, v). k @ ''='' @ v) ps"
  have d: "dropWhile (\<lambda>ch. ch \<noteq> CHR ''?'') (pre @ CHR ''?'' # encode_params ps) =
             CHR ''?'' # encode_params ps"
    using assms(1) by (induction pre) auto
  have safe: "\<forall>x \<in> set ?kvs. CHR ''&'' \<notin> set x" using all by auto
  have ne: "?kvs \<noteq> []" using assms(2) by simp
  have "split_acc (CHR ''&'') [] (encode_params ps) = ([] @ hd ?kvs) # tl ?kvs"
    unfolding encode_params_def using split_acc_Join[OF safe ne, of "[]"] by simp
  then have s: "split_acc (CHR ''&'') [] (encode_params ps) = ?kvs" using ne by simp
  have kv: "map key_value ?kvs = ps"
    using all by (induction ps) (auto simp: key_value_pair)
  have "CHR ''#'' \<notin> set (pre @ ''?'' @ encode_params ps)" using nofrag by simp
  then have "query_params (pre @ ''?'' @ encode_params ps) =
          map key_value (split_acc (CHR ''&'') [] (encode_params ps))"
    by (simp add: query_params_whole d)
  then show ?thesis by (simp only: s kv)
qed

lemma amp_before_question:
  assumes "CHR ''?'' \<notin> set pre"
  shows "\<not> well_formed_url (pre @ CHR ''&'' # post)"
proof -
  have "takeWhile (\<lambda>ch. ch \<noteq> CHR ''?'') (pre @ CHR ''&'' # post) =
          pre @ takeWhile (\<lambda>ch. ch \<noteq> CHR ''?'') (CHR ''&'' # post)"
    using assms by (intro takeWhile_append2) auto
  then have "CHR ''&'' \<in> set (takeWhile (\<lambda>ch. ch \<noteq> CHR ''?'') (pre @ CHR ''&'' # post))"
    by simp
  then show ?thesis by (simp only: well_formed_url_def) blast
qed

section \<open>The shared request helper\<close>

lemma doGet_url_eq:
  "doGet_url c endpoint =
     APIURL @ endpoint @ (if CHR ''?'' \<in> set endpoint then ''&'' else ''?'')
       @ ''client_id='' @ ClientID c @ ''&api_key='' @ APIKey c"
  by (simp add: doGet_url_def Let_def Sprintf_eval Contains_char APIURL_def)

lemma doGet_reqs: "snd (doGet c http unmarshal endpoint reqs) = reqs @ [doGet_url c endpoint]"
  by (simp add: doGet_def Let_def split: http_response.splits sum.splits)

lemma doGet_ex:
  "\<exists>out. doGet c http unmarshal endpoint reqs = (out, reqs @ [doGet_url c endpoint])"
  by (simp add: doGet_def Let_def split: http_response.splits sum.splits)

lemma snd_after_doGet:
  "snd (case doGet c http unmarshal endpoint reqs of
          (Panic p, reqs') \<Rightarrow> (f p, reqs')
        | (Return (Inl err), reqs') \<Rightarrow> (g err, reqs')
        | (Return (Inr env), reqs') \<Rightarrow> if b env then (h env, reqs') else (k env, reqs')) =
   reqs @ [doGet_url c endpoint]"
  using doGet_ex[of c http unmarshal endpoint reqs]
  by (auto split: outcome.splits sum.splits)

lemma doGet_url_amp:
  assumes "CHR ''?'' \<notin> set p"
  shows "\<not> well_formed_url (doGet_url c (p @ CHR ''&'' # q))"
proof -
  have q: "CHR ''?'' \<notin> set (APIURL @ p)" using assms by (simp add: APIURL_def)
  have "doGet_url c (p @ CHR ''&'' # q) =
          (APIURL @ p) @ CHR ''&'' # (q @ (if CHR ''?'' \<in> set (p @ CHR ''&'' # q) then ''&'' else ''?'')
            @ ''client_id='' @ ClientID c @ ''&api_key='' @ APIKey c)"
    unfolding doGet_url_eq by simp
  then show ?thesis using amp_before_question[OF q] by simp
qed

lemma doGet_url_params:
  assumes "CHR ''&'' \<notin> set (ClientID c)" and "CHR ''&'' \<notin> set (APIKey c)"
    and nofrag: "CHR ''#'' \<notin> set (doGet_url c endpoint)"
  shows "\<exists>ps. query_params (doGet_url c endpoint) = ps @ credentials c"
proof -
  note qp = query_params_whole[OF nofrag]
  let ?P = "\<lambda>ch. ch \<noteq> CHR ''?''"
  let ?cid = "''client_id='' @ ClientID c" and ?key = "''api_key='' @ APIKey c"
  have cid: "CHR ''&'' \<notin> set ?cid" and key: "CHR ''&'' \<notin> set ?key"
    using assms by simp_all
  have two: "map key_value (split_acc (CHR ''&'') [] (?cid @ CHR ''&'' # ?key)) = credentials c"
    unfolding split_acc_sep split_acc_plain[OF cid] split_acc_plain[OF key]
    using key_value_pair[of "''client_id''" "ClientID c"] key_value_pair[of "''api_key''" "APIKey c"]
    by (simp add: credentials_def)
  show ?thesis
  proof (cases "CHR ''?'' \<in> set endpoint")
    case True
    then have mem: "CHR ''?'' \<in> set (APIURL @ endpoint)" by simp
    define q where "q = tl (dropWhile ?P (APIURL @ endpoint))"
    have ne: "dropWhile ?P (APIURL @ endpoint) \<noteq> []" using mem by simp
    have url: "doGet_url c endpoint = (APIURL @ endpoint) @ (CHR ''&'' # ?cid @ CHR ''&'' # ?key)"
      using True by (simp add: doGet_url_eq)
    have "tl (dropWhile ?P (doGet_url c endpoint)) = q @ CHR ''&'' # ?cid @ CHR ''&'' # ?key"
      unfolding url dropWhile_until_append[OF mem] q_def using ne by simp
    moreover have "CHR ''?'' \<in> set (doGet_url c endpoint)" unfolding url using True by simp
    ultimately have "query_params (doGet_url c endpoint) =
        map key_value (split_acc (CHR ''&'') [] (q @ CHR ''&'' # (?cid @ CHR ''&'' # ?key)))"
      by (simp add: qp)
    also have "\<dots> = map key_value (split_acc (CHR ''&'') [] q)
                   @ map key_value (split_acc (CHR ''&'') [] (?cid @ CHR ''&'' # ?key))"
      by (simp only: split_acc_sep[of "CHR ''&''" "[]" q] map_append)
    finally show ?thesis unfolding two by blast
  next
    case False
    then have nq: "CHR ''?'' \<notin> set (APIURL @ endpoint)" by (simp add: APIURL_def)
    have url: "doGet_url c endpoint = (APIURL @ endpoint) @ ''?'' @ encode_params (credentials c)"
      using False by (simp add: doGet_url_eq encode_params_def credentials_def)
    have h: "CHR ''#'' \<notin> set (APIURL @ endpoint)"
      and h': "CHR ''#'' \<notin> set (encode_params (credentials c))"
      using nofrag unfolding url by simp_all
    have "query_params (doGet_url c endpoint) = credentials c"
      unfolding url using assms(1,2)
      by (intro query_params_encode[OF nq _ h h']) (simp_all add: credentials_def)
    then have "query_params (doGet_url c endpoint) = [] @ credentials c" by simp
    then show ?thesis by blast
  qed
qed

text \<open>
  C9. When the body of the response cannot be read, and when the body that was
  read does not decode into the envelope the caller expects, \<open>doGet\<close> panics with
  the error of the read or of the decoder (the request has been made by then).
  It never returns such an error as a value, so no caller can be handed one; an
  operation built on \<open>doGet\<close>, such as \<open>GetDropletByID\<close>, does not return either
  but panics in turn.
\<close>

theorem doGet_decode_panics:
  "(http (doGet_url c endpoint) = ReadAllFailed e \<longrightarrow>
      doGet c http unmarshal endpoint reqs = (Panic (ReadError e), reqs @ [doGet_url c endpoint]))
   \<and> (http (doGet_url c endpoint) = Body body \<and> unmarshal body = Inl e \<longrightarrow>
      doGet c http unmarshal endpoint reqs = (Panic (JsonError e), reqs @ [doGet_url c endpoint]))
   \<and> fst (doGet c http unmarshal endpoint reqs) \<noteq> Return (Inl (ReadError e'))
   \<and> fst (doGet c http unmarshal endpoint reqs) \<noteq> Return (Inl (JsonError e'))
   \<and> (http (doGet_url c (''/droplets/'' @ fmtd ID')) = ReadAllFailed e \<longrightarrow>
      fst (GetDropletByID c http unmarshal' ID' reqs) = Panic (ReadError e))
   \<and> (http (doGet_url c (''/droplets/'' @ fmtd ID')) = Body body \<and> unmarshal' body = Inl e \<longrightarrow>
      fst (GetDropletByID c http unmarshal' ID' reqs) = Panic (JsonError e))"
proof (intro conjI impI)
  show "doGet c http unmarshal endpoint reqs =
          (Panic (ReadError e), reqs @ [doGet_url c endpoint])"
    if "http (doGet_url c endpoint) = ReadAllFailed e"
    using that by (simp add: doGet_def Let_def)
  show "doGet c http unmarshal endpoint reqs =
          (Panic (JsonError e), reqs @ [doGet_url c endpoint])"
    if "http (doGet_url c endpoint) = Body body \<and> unmarshal body = Inl e"
    using that by (simp add: doGet_def Let_def)
  show "fst (doGet c http unmarshal endpoint reqs) \<noteq> Return (Inl (ReadError e'))"
    by (cases "http (doGet_url c endpoint)")
      (simp_all add: doGet_def Let_def split: sum.splits)
  show "fst (doGet c http unmarshal endpoint reqs) \<noteq> Return (Inl (JsonError e'))"
    by (cases "http (doGet_url c endpoint)")
      (simp_all add: doGet_def Let_def split: sum.splits)
  show "fst (GetDropletByID c http unmarshal' ID' reqs) = Panic (ReadError e)"
    if "http (doGet_url c (''/droplets/'' @ fmtd ID')) = ReadAllFailed e"
    using that by (simp add: GetDropletByID_def doGet_def Let_def Sprintf_formats)
  show "fst (GetDropletByID c http unmarshal' ID' reqs) = Panic (JsonError e)"
    if "http (doGet_url c (''/droplets/'' @ fmtd ID')) = Body body \<and> unmarshal' body = Inl e"
    using that by (simp add: GetDropletByID_def doGet_def Let_def Sprintf_formats)
qed

theorem doGet_decode_panics_witness:
  "doGet \<lparr>ClientID = ''id'', APIKey = ''key''\<rparr> (\<lambda>url. ReadAllFailed ''unexpected EOF'')
     (\<lambda>body. Inl ''unused'' :: string + EventID_DOResp) ''/droplets/5/reboot'' [] =
     (Panic (ReadError ''unexpected EOF''),
      [''https://api.digitalocean.com/v1/droplets/5/reboot?client_id=id&api_key=key''])
   \<and> doGet \<lparr>ClientID = ''id'', APIKey = ''key''\<rparr> (\<lambda>url. Body ''<html>502</html>'')
     (\<lambda>body. Inl ''invalid character'' :: string + EventID_DOResp) ''/droplets/5/reboot'' [] =
     (Panic (JsonError ''invalid character''),
      [''https://api.digitalocean.com/v1/droplets/5/reboot?client_id=id&api_key=key''])
   \<and> fst (GetDropletByID \<lparr>ClientID = ''id'', APIKey = ''key''\<rparr>
          (\<lambda>url. Body ''<html>502</html>'') (\<lambda>body. Inl ''invalid character'') 5 []) =
     Panic (JsonError ''invalid character'')"
  using doGet_decode_panics[where http = "\<lambda>url. ReadAllFailed ''unexpected EOF''"
      and c = "\<lparr>ClientID = ''id'', APIKey = ''key''\<rparr>" and endpoint = "''/droplets/5/reboot''"
      and e = "''unexpected EOF''" and reqs = "[]"
      and unmarshal = "\<lambda>body. Inl ''unused'' :: string + EventID_DOResp"]
    doGet_decode_panics[where http = "\<lambda>url. Body ''<html>502</html>''"
      and c = "\<lparr>ClientID = ''id'', APIKey = ''key''\<rparr>" and endpoint = "''/droplets/5/reboot''"
      and e = "''invalid character''" and reqs = "[]" and body = "''<html>502</html>''"
      and unmarshal = "\<lambda>body. Inl ''invalid character'' :: string + EventID_DOResp"
      and unmarshal' = "\<lambda>body. Inl ''invalid character''" and ID' = 5]
  by (simp add: doGet_url_eq APIURL_def)

section \<open>The requests of the operations\<close>

lemma missing_selectors_Nil:
  "missing_selectors n = [] \<longleftrightarrow>
     (NewDroplet.SizeID n \<noteq> 0 \<or> NewDroplet.SizeSlug n \<noteq> [])
     \<and> (NewDroplet.ImageID n \<noteq> 0 \<or> NewDroplet.ImageSlug n \<noteq> [])
     \<and> (NewDroplet.RegionID n \<noteq> 0 \<or> NewDroplet.RegionSlug n \<noteq> [])"
  by (auto simp: missing_selectors_def)

lemma CreateDroplet_rejects:
  assumes "missing_selectors n \<noteq> []"
  shows "CreateDroplet c http unmarshal n reqs =
           (Return (None, Some (ErrorString (hd (missing_selectors n) @ '' ID or slug must be set''))),
            reqs)"
  using assms
  by (auto simp: missing_selectors_def CreateDroplet_def Errorf_plain split: if_splits)

lemma CreateDroplet_reqs:
  assumes "NewDroplet.SizeID n \<noteq> 0 \<or> NewDroplet.SizeSlug n \<noteq> []"
    and "NewDroplet.ImageID n \<noteq> 0 \<or> NewDroplet.ImageSlug n \<noteq> []"
    and "NewDroplet.RegionID n \<noteq> 0 \<or> NewDroplet.RegionSlug n \<noteq> []"
  shows "snd (CreateDroplet c http unmarshal n reqs) =
     reqs @ [doGet_url c (''/droplets/new?name='' @ NewDroplet.Name n
       @ (if NewDroplet.SizeID n \<noteq> 0 then ''&size_id='' @ fmtd (NewDroplet.SizeID n)
          else ''&size_slug='' @ NewDroplet.SizeSlug n)
       @ (if NewDroplet.ImageID n \<noteq> 0 then ''&image_id='' @ fmtd (NewDroplet.ImageID n)
          else ''&image_slug='' @ NewDroplet.ImageSlug n)
       @ (if NewDroplet.RegionID n \<noteq> 0 then ''&region_id='' @ fmtd (NewDroplet.RegionID n)
          else ''&region_slug='' @ NewDroplet.RegionSlug n)
       @ optional_param ''ssh_key_ids'' (NewDroplet.SSHKeyIDs n \<noteq> []) (Join (NewDroplet.SSHKeyIDs n) '','')
       @ optional_param ''private_networking'' (NewDroplet.PrivateNetworking n) ''true''
       @ optional_param ''backups_enabled'' (NewDroplet.BackupsEnabled n) ''true'')]"
  using assms unfolding CreateDroplet_def Let_def
  by (simp add: snd_after_doGet Sprintf_formats optional_param_def)

lemma GetDropletByID_reqs:
  "snd (GetDropletByID c http unmarshal ID' reqs) = reqs @ [doGet_url c (''/droplets/'' @ fmtd ID')]"
  unfolding GetDropletByID_def by (simp add: snd_after_doGet Sprintf_formats)

lemma ResizeDroplet_string_reqs:
  "snd (ResizeDroplet c http unmarshal ID' (GoString slug) reqs) =
     reqs @ [doGet_url c (''/droplets/'' @ fmtd ID' @ ''/resize&size_slug='' @ slug)]"
  unfolding ResizeDroplet_def Let_def by (simp add: snd_after_doGet Sprintf_formats)

lemma ResizeDroplet_int_reqs:
  "snd (ResizeDroplet c http unmarshal ID' (GoInt k) reqs) =
     reqs @ [doGet_url c (''/droplets/'' @ fmtd ID' @ ''/resize&size_id='' @ fmtd k)]"
  unfolding ResizeDroplet_def Let_def by (simp add: snd_after_doGet Sprintf_formats)


lemma TakeSnapshotOnDroplet_reqs:
  "snd (TakeSnapshotOnDroplet c http unmarshal ID' name reqs) =
     reqs @ [doGet_url c (''/droplets/'' @ fmtd ID' @ ''/snapshot''
               @ (if name \<noteq> [] then ''&name='' @ name else []))]"
  unfolding TakeSnapshotOnDroplet_def Let_def by (simp add: snd_after_doGet Sprintf_formats)

lemma CreateDomainRecord_rejects:
  "DomainRecord.RecordType r = [] \<or> DomainRecord.Data r = [] \<Longrightarrow>
     snd (CreateDomainRecord c http unmarshal ID' r reqs) = reqs"
  by (auto simp: CreateDomainRecord_def)

lemma CreateDomainRecord_reqs:
  assumes "DomainRecord.RecordType r \<noteq> []" and "DomainRecord.Data r \<noteq> []"
  shows "snd (CreateDomainRecord c http unmarshal ID' r reqs) =
     reqs @ [doGet_url c (''/domains/'' @ fmt_v ID' @ ''/records/new?record_type=''
       @ DomainRecord.RecordType r @ ''&data='' @ DomainRecord.Data r
       @ optional_param ''name'' (DomainRecord.Name r \<noteq> []) (DomainRecord.Name r)
       @ optional_param ''priority'' (DomainRecord.Priority r \<noteq> 0) (fmtd (DomainRecord.Priority r))
       @ optional_param ''port'' (DomainRecord.Port r \<noteq> 0) (fmtd (DomainRecord.Port r))
       @ optional_param ''weight'' (DomainRecord.Weight r \<noteq> 0) (fmtd (DomainRecord.Weight r)))]"
  using assms unfolding CreateDomainRecord_def Let_def
  by (simp add: snd_after_doGet Sprintf_formats optional_param_def)

lemma UpdateRecordByDomain_rejects:
  "DomainRecord.ID r = 0 \<or> DomainRecord.RecordType r = [] \<or> DomainRecord.Data r = [] \<Longrightarrow>
     snd (UpdateRecordByDomain c http unmarshal domainID r reqs) = reqs"
  by (auto simp: UpdateRecordByDomain_def)

lemma UpdateRecordByDomain_reqs:
  assumes "DomainRecord.ID r \<noteq> 0" and "DomainRecord.RecordType r \<noteq> []"
    and "DomainRecord.Data r \<noteq> []"
  shows "snd (UpdateRecordByDomain c http unmarshal domainID r reqs) =
     reqs @ [doGet_url c (''/domains/'' @ fmt_v domainID @ ''/records/new?record_type=%!s(int=''
       @ fmtd (DomainRecord.ID r) @ '')&data='' @ DomainRecord.RecordType r
       @ ''%!(EXTRA string='' @ DomainRecord.Data r @ '')''
       @ optional_param ''name'' (DomainRecord.Name r \<noteq> []) (DomainRecord.Name r)
       @ optional_param ''priority'' (DomainRecord.Priority r \<noteq> 0) (fmtd (DomainRecord.Priority r))
       @ optional_param ''port'' (DomainRecord.Port r \<noteq> 0) (fmtd (DomainRecord.Port r))
       @ optional_param ''weight'' (DomainRecord.Weight r \<noteq> 0) (fmtd (DomainRecord.Weight r)))]"
  using assms unfolding UpdateRecordByDomain_def Let_def
  by (simp add: snd_after_doGet Sprintf_formats optional_param_def)

lemma record_query_encode:
  assumes "DomainRecord.RecordType r \<noteq> []" and "DomainRecord.Data r \<noteq> []"
  shows "doGet_url c (''/domains/'' @ fmt_v domainID @ ''/records/new?record_type=''
       @ DomainRecord.RecordType r @ ''&data='' @ DomainRecord.Data r
       @ optional_param ''name'' (DomainRecord.Name r \<noteq> []) (DomainRecord.Name r)
       @ optional_param ''priority'' (DomainRecord.Priority r \<noteq> 0) (fmtd (DomainRecord.Priority r))
       @ optional_param ''port'' (DomainRecord.Port r \<noteq> 0) (fmtd (DomainRecord.Port r))
       @ optional_param ''weight'' (DomainRecord.Weight r \<noteq> 0) (fmtd (DomainRecord.Weight r))) =
     APIURL @ ''/domains/'' @ fmt_v domainID @ ''/records/new?''
       @ encode_params (record_params r @ credentials c)"
  by (simp add: doGet_url_eq encode_params_def record_params_def credentials_def optional_param_def)

lemma record_params_safe:
  assumes "list_all (\<lambda>v. CHR ''&'' \<notin> set v)
             [DomainRecord.RecordType r, DomainRecord.Data r, DomainRecord.Name r, ClientID c, APIKey c]"
  shows "list_all (\<lambda>(k, v). CHR ''='' \<notin> set k \<and> CHR ''&'' \<notin> set k \<and> CHR ''&'' \<notin> set v)
           (record_params r @ credentials c)"
  using assms by (simp add: record_params_def credentials_def fmtd_no_amp)

lemma record_params_hash:
  assumes "list_all (\<lambda>v. CHR ''#'' \<notin> set v)
             [DomainRecord.RecordType r, DomainRecord.Data r, DomainRecord.Name r, ClientID c, APIKey c]"
  shows "CHR ''#'' \<notin> set (encode_params (record_params r @ credentials c))"
  using assms
  by (intro encode_params_hash) (simp add: record_params_def credentials_def fmtd_no_hash)

lemma droplet_query_encode:
  "doGet_url c (''/droplets/new?name='' @ NewDroplet.Name n
       @ (if NewDroplet.SizeID n \<noteq> 0 then ''&size_id='' @ fmtd (NewDroplet.SizeID n)
          else ''&size_slug='' @ NewDroplet.SizeSlug n)
       @ (if NewDroplet.ImageID n \<noteq> 0 then ''&image_id='' @ fmtd (NewDroplet.ImageID n)
          else ''&image_slug='' @ NewDroplet.ImageSlug n)
       @ (if NewDroplet.RegionID n \<noteq> 0 then ''&region_id='' @ fmtd (NewDroplet.RegionID n)
          else ''&region_slug='' @ NewDroplet.RegionSlug n)
       @ optional_param ''ssh_key_ids'' (NewDroplet.SSHKeyIDs n \<noteq> []) (Join (NewDroplet.SSHKeyIDs n) '','')
       @ optional_param ''private_networking'' (NewDroplet.PrivateNetworking n) ''true''
       @ optional_param ''backups_enabled'' (NewDroplet.BackupsEnabled n) ''true'') =
     APIURL @ ''/droplets/new?'' @ encode_params (droplet_params n @ credentials c)"
  by (simp add: doGet_url_eq encode_params_def droplet_params_def credentials_def optional_param_def)

lemma droplet_params_safe:
  assumes "list_all (\<lambda>v. CHR ''&'' \<notin> set v)
             ([NewDroplet.Name n, NewDroplet.SizeSlug n, NewDroplet.ImageSlug n,
               NewDroplet.RegionSlug n, ClientID c, APIKey c] @ NewDroplet.SSHKeyIDs n)"
  shows "list_all (\<lambda>(k, v). CHR ''='' \<notin> set k \<and> CHR ''&'' \<notin> set k \<and> CHR ''&'' \<notin> set v)
           (droplet_params n @ credentials c)"
proof -
  have "CHR ''&'' \<notin> set (Join (NewDroplet.SSHKeyIDs n) '','')"
    using assms by (intro Join_comma_amp) (simp add: list_all_iff)
  then show ?thesis
    using assms by (simp add: droplet_params_def credentials_def fmtd_no_amp)
qed

lemma droplet_params_hash:
  assumes "list_all (\<lambda>v. CHR ''#'' \<notin> set v)
             ([NewDroplet.Name n, NewDroplet.SizeSlug n, NewDroplet.ImageSlug n,
               NewDroplet.RegionSlug n, ClientID c, APIKey c] @ NewDroplet.SSHKeyIDs n)"
  shows "CHR ''#'' \<notin> set (encode_params (droplet_params n @ credentials c))"
proof -
  have "CHR ''#'' \<notin> set (Join (NewDroplet.SSHKeyIDs n) '','')"
    using assms by (intro Join_comma_hash) (simp add: list_all_iff)
  then show ?thesis
    using assms
    by (intro encode_params_hash) (simp add: droplet_params_def credentials_def fmtd_no_hash)
qed

section \<open>Every operation goes through the request helper\<close>

lemma requests_via_doGet_none: "requests_via_doGet c reqs reqs"
  by (simp add: requests_via_doGet_def)

lemma requests_via_doGet_one: "requests_via_doGet c reqs (reqs @ [doGet_url c endpoint])"
  unfolding requests_via_doGet_def by blast

lemmas via_doGet = snd_after_doGet requests_via_doGet_one requests_via_doGet_none

lemma GetEventByID_via:
  "requests_via_doGet c reqs (snd (GetEventByID c http unmarshal x reqs))"
  unfolding GetEventByID_def Let_def by (simp add: via_doGet)

lemma GetAllRegions_via:
  "requests_via_doGet c reqs (snd (GetAllRegions c http unmarshal reqs))"
  unfolding GetAllRegions_def Let_def by (simp add: via_doGet)

lemma GetAllSizes_via:
  "requests_via_doGet c reqs (snd (GetAllSizes c http unmarshal reqs))"
  unfolding GetAllSizes_def Let_def by (simp add: via_doGet)

lemma DeleteDropletByID_via:
  "requests_via_doGet c reqs (snd (DeleteDropletByID c http unmarshal x reqs))"
  unfolding DeleteDropletByID_def Let_def by (simp add: via_doGet)

lemma GetAllDroplets_via:
  "requests_via_doGet c reqs (snd (GetAllDroplets c http unmarshal reqs))"
  unfolding GetAllDroplets_def Let_def by (simp add: via_doGet)

lemma RebootDroplet_via:
  "requests_via_doGet c reqs (snd (RebootDroplet c http unmarshal x reqs))"
  unfolding RebootDroplet_def Let_def by (simp add: via_doGet)

lemma PowerCycleDroplet_via:
  "requests_via_doGet c reqs (snd (PowerCycleDroplet c http unmarshal x reqs))"
  unfolding PowerCycleDroplet_def Let_def by (simp add: via_doGet)

lemma ShutDownDroplet_via:
  "requests_via_doGet c reqs (snd (ShutDownDroplet c http unmarshal x reqs))"
  unfolding ShutDownDroplet_def Let_def by (simp add: via_doGet)

lemma PowerOffDroplet_via:
  "requests_via_doGet c reqs (snd (PowerOffDroplet c http unmarshal x reqs))"
  unfolding PowerOffDroplet_def Let_def by (simp add: via_doGet)

lemma PowerOnDroplet_via:
  "requests_via_doGet c reqs (snd (PowerOnDroplet c http unmarshal x reqs))"
  unfolding PowerOnDroplet_def Let_def by (simp add: via_doGet)

lemma ResetRootPassDroplet_via:
  "requests_via_doGet c reqs (snd (ResetRootPassDroplet c http unmarshal x reqs))"
  unfolding ResetRootPassDroplet_def Let_def by (simp add: via_doGet)

lemma RestoreDroplet_via:
  "requests_via_doGet c reqs (snd (RestoreDroplet c http unmarshal x y reqs))"
  unfolding RestoreDroplet_def Let_def by (simp add: via_doGet)

lemma RebuildDroplet_via:
  "requests_via_doGet c reqs (snd (RebuildDroplet c http unmarshal x y reqs))"
  unfolding RebuildDroplet_def Let_def by (simp add: via_doGet)

lemma RenameDroplet_via:
  "requests_via_doGet c reqs (snd (RenameDroplet c http unmarshal x y reqs))"
  unfolding RenameDroplet_def Let_def by (simp add: via_doGet)

lemma DeleteDomainByID_via:
  "requests_via_doGet c reqs (snd (DeleteDomainByID c http unmarshal x reqs))"
  unfolding DeleteDomainByID_def Let_def by (simp add: via_doGet)

lemma GetAllDomains_via:
  "requests_via_doGet c reqs (snd (GetAllDomains c http unmarshal reqs))"
  unfolding GetAllDomains_def Let_def by (simp add: via_doGet)

lemma GetDomainByID_via:
  "requests_via_doGet c reqs (snd (GetDomainByID c http unmarshal x reqs))"
  unfolding GetDomainByID_def Let_def by (simp add: via_doGet)

lemma GetAllRecordsByDomain_via:
  "requests_via_doGet c reqs (snd (GetAllRecordsByDomain c http unmarshal x reqs))"
  unfolding GetAllRecordsByDomain_def Let_def by (simp add: via_doGet)

lemma GetRecordByDomain_via:
  "requests_via_doGet c reqs (snd (GetRecordByDomain c http unmarshal x y reqs))"
  unfolding GetRecordByDomain_def Let_def by (simp add: via_doGet)

lemma DeleteRecordByDomain_via:
  "requests_via_doGet c reqs (snd (DeleteRecordByDomain c http unmarshal x y reqs))"
  unfolding DeleteRecordByDomain_def Let_def by (simp add: via_doGet)

lemma GetAllImages_via:
  "requests_via_doGet c reqs (snd (GetAllImages c http unmarshal reqs))"
  unfolding GetAllImages_def Let_def by (simp add: via_doGet)

lemma GetDropletByID_via:
  "requests_via_doGet c reqs (snd (GetDropletByID c http unmarshal x reqs))"
  unfolding GetDropletByID_def Let_def by (simp add: via_doGet)

lemma TakeSnapshotOnDroplet_via:
  "requests_via_doGet c reqs (snd (TakeSnapshotOnDroplet c http unmarshal x y reqs))"
  unfolding TakeSnapshotOnDroplet_def Let_def by (simp add: via_doGet)

lemma DeleteImage_via:
  "requests_via_doGet c reqs (snd (DeleteImage c http unmarshal x reqs))"
  unfolding DeleteImage_def Let_def by (cases x) (simp_all add: via_doGet)

lemma GetImageByID_via:
  "requests_via_doGet c reqs (snd (GetImageByID c http unmarshal x reqs))"
  unfolding GetImageByID_def Let_def by (cases x) (simp_all add: via_doGet)

lemma TransferImage_via:
  "requests_via_doGet c reqs (snd (TransferImage c http unmarshal x y reqs))"
  unfolding TransferImage_def Let_def by (cases x) (simp_all add: via_doGet)

lemma ResizeDroplet_via:
  "requests_via_doGet c reqs (snd (ResizeDroplet c http unmarshal x y reqs))"
  unfolding ResizeDroplet_def Let_def by (cases y) (simp_all add: via_doGet)

lemma CreateDomain_via:
  "requests_via_doGet c reqs (snd (CreateDomain c http unmarshal ip x y reqs))"
  unfolding CreateDomain_def Let_def by (simp add: via_doGet)

lemma CreateDroplet_via:
  "requests_via_doGet c reqs (snd (CreateDroplet c http unmarshal x reqs))"
proof (cases "missing_selectors x = []")
  case True
  then show ?thesis
    unfolding missing_selectors_Nil
    using CreateDroplet_reqs[of x c http unmarshal reqs] by (simp add: via_doGet)
next
  case False
  then show ?thesis by (simp add: CreateDroplet_rejects via_doGet)
qed

lemma CreateDomainRecord_via:
  "requests_via_doGet c reqs (snd (CreateDomainRecord c http unmarshal x y reqs))"
  using CreateDomainRecord_reqs[of y c http unmarshal x reqs]
    CreateDomainRecord_rejects[of y c http unmarshal x reqs]
  by (cases "DomainRecord.RecordType y = [] \<or> DomainRecord.Data y = []") (simp_all add: via_doGet)

lemma UpdateRecordByDomain_via:
  "requests_via_doGet c reqs (snd (UpdateRecordByDomain c http unmarshal x y reqs))"
  using UpdateRecordByDomain_reqs[of y c http unmarshal x reqs]
    UpdateRecordByDomain_rejects[of y c http unmarshal x reqs]
  by (cases "DomainRecord.ID y = 0 \<or> DomainRecord.RecordType y = [] \<or> DomainRecord.Data y = []")
    (simp_all add: via_doGet)

lemmas operation_via =
  GetEventByID_via GetAllRegions_via GetAllSizes_via CreateDroplet_via DeleteDropletByID_via
  GetAllDroplets_via GetDropletByID_via RebootDroplet_via PowerCycleDroplet_via
  ShutDownDroplet_via PowerOffDroplet_via PowerOnDroplet_via ResetRootPassDroplet_via
  ResizeDroplet_via TakeSnapshotOnDroplet_via RestoreDroplet_via RebuildDroplet_via
  RenameDroplet_via CreateDomain_via DeleteDomainByID_via GetAllDomains_via GetDomainByID_via
  CreateDomainRecord_via GetAllRecordsByDomain_via GetRecordByDomain_via
  UpdateRecordByDomain_via DeleteRecordByDomain_via DeleteImage_via GetAllImages_via
  GetImageByID_via TransferImage_via

lemmas operation_defs =
  GetEventByID_def GetAllRegions_def GetAllSizes_def CreateDroplet_def DeleteDropletByID_def
  GetAllDroplets_def GetDropletByID_def RebootDroplet_def PowerCycleDroplet_def
  ShutDownDroplet_def PowerOffDroplet_def PowerOnDroplet_def ResetRootPassDroplet_def
  ResizeDroplet_def TakeSnapshotOnDroplet_def RestoreDroplet_def RebuildDroplet_def
  RenameDroplet_def CreateDomain_def DeleteDomainByID_def GetAllDomains_def GetDomainByID_def
  CreateDomainRecord_def GetAllRecordsByDomain_def GetRecordByDomain_def
  UpdateRecordByDomain_def DeleteRecordByDomain_def DeleteImage_def GetAllImages_def
  GetImageByID_def TransferImage_def

lemma perform_via: "requests_via_doGet c reqs (snd (perform c http d call reqs))"
  by (cases call) (simp_all add: operation_via)

lemma doGet_transport:
  assumes "\<forall>endpoint. http' (doGet_url c endpoint) = http (doGet_url c endpoint)"
  shows "doGet c http' unmarshal endpoint reqs = doGet c http unmarshal endpoint reqs"
  using assms by (simp add: doGet_def Let_def)

lemma perform_transport:
  assumes "\<forall>endpoint. http' (doGet_url c endpoint) = http (doGet_url c endpoint)"
  shows "perform c http' d call reqs = perform c http d call reqs"
  by (cases call) (simp_all only: perform.simps operation_defs doGet_transport[OF assms])

lemma doGet_eq:
  "doGet c http unmarshal endpoint reqs =
     (case http (doGet_url c endpoint) of
        GetFailed e \<Rightarrow> Return (Inl (HttpError e))
      | ReadAllFailed e \<Rightarrow> Panic (ReadError e)
      | Body body \<Rightarrow>
          (case unmarshal body of
             Inl e \<Rightarrow> Panic (JsonError e)
           | Inr env \<Rightarrow> Return (Inr env)),
      reqs @ [doGet_url c endpoint])"
  by (simp add: doGet_def Let_def split: http_response.splits sum.splits)

section \<open>Credentials\<close>

text \<open>
  C7, as the code has it. For every endpoint handed to \<open>doGet\<close>, the URL that
  \<open>doGet\<close> asks the transport for, and no other, is the API URL and the
  endpoint, then \<^verbatim>\<open>?\<close> (when the endpoint has none) or \<^verbatim>\<open>&\<close>, then \<^verbatim>\<open>client_id=\<close>
  with the client's stored identifier, then \<^verbatim>\<open>&api_key=\<close> with its stored key,
  and nothing after; what \<open>doGet\<close> returns is decided by the answer to that URL.
  Every one of the thirty-one operations of the client requests nothing, or one
  URL composed in this way, and consults the transport nowhere else: two
  transports that agree on the URLs \<open>doGet\<close> composes give the same outcome.
  The credentials are the last two query parameters of the request when the
  endpoint and the credentials have no \<^verbatim>\<open>#\<close> in them and the credentials no \<^verbatim>\<open>&\<close>.
  Nothing is escaped, so the condition is needed: see the counterexample.
\<close>

theorem doGet_credentials_last:
  "doGet_url c endpoint =
     APIURL @ endpoint @ (if CHR ''?'' \<in> set endpoint then ''&'' else ''?'')
       @ ''client_id='' @ ClientID c @ ''&api_key='' @ APIKey c
   \<and> doGet c http unmarshal endpoint reqs =
       (case http (doGet_url c endpoint) of
          GetFailed e \<Rightarrow> Return (Inl (HttpError e))
        | ReadAllFailed e \<Rightarrow> Panic (ReadError e)
        | Body body \<Rightarrow>
            (case unmarshal body of
               Inl e \<Rightarrow> Panic (JsonError e)
             | Inr env \<Rightarrow> Return (Inr env)),
        reqs @ [doGet_url c endpoint])
   \<and> (CHR ''#'' \<notin> set endpoint
        \<and> list_all (\<lambda>v. CHR ''#'' \<notin> set v \<and> CHR ''&'' \<notin> set v) [ClientID c, APIKey c] \<longrightarrow>
        credentials_last c (doGet_url c endpoint))
   \<and> requests_via_doGet c reqs (snd (perform c http d call reqs))
   \<and> ((\<forall>endpoint. http' (doGet_url c endpoint) = http (doGet_url c endpoint)) \<longrightarrow>
        perform c http' d call reqs = perform c http d call reqs)"
proof (intro conjI impI)
  show "doGet_url c endpoint =
     APIURL @ endpoint @ (if CHR ''?'' \<in> set endpoint then ''&'' else ''?'')
       @ ''client_id='' @ ClientID c @ ''&api_key='' @ APIKey c"
    by (rule doGet_url_eq)
  show "doGet c http unmarshal endpoint reqs =
       (case http (doGet_url c endpoint) of
          GetFailed e \<Rightarrow> Return (Inl (HttpError e))
        | ReadAllFailed e \<Rightarrow> Panic (ReadError e)
        | Body body \<Rightarrow>
            (case unmarshal body of
               Inl e \<Rightarrow> Panic (JsonError e)
             | Inr env \<Rightarrow> Return (Inr env)),
        reqs @ [doGet_url c endpoint])"
    by (rule doGet_eq)
  show "credentials_last c (doGet_url c endpoint)"
    if safe: "CHR ''#'' \<notin> set endpoint
        \<and> list_all (\<lambda>v. CHR ''#'' \<notin> set v \<and> CHR ''&'' \<notin> set v) [ClientID c, APIKey c]"
  proof -
    have nofrag: "CHR ''#'' \<notin> set (doGet_url c endpoint)"
      using safe by (simp add: doGet_url_eq APIURL_def)
    have "\<exists>ps. query_params (doGet_url c endpoint) = ps @ credentials c"
      using safe by (intro doGet_url_params nofrag) simp_all
    then show ?thesis using credentials_last_append by blast
  qed
  show "requests_via_doGet c reqs (snd (perform c http d call reqs))"
    by (rule perform_via)
  show "perform c http' d call reqs = perform c http d call reqs"
    if "\<forall>endpoint. http' (doGet_url c endpoint) = http (doGet_url c endpoint)"
    using that by (rule perform_transport)
qed

theorem doGet_credentials_last_witness:
  "credentials_last \<lparr>ClientID = ''id'', APIKey = ''key''\<rparr>
     (doGet_url \<lparr>ClientID = ''id'', APIKey = ''key''\<rparr> ''/droplets/5/rename?name=web'')
   \<and> doGet_url \<lparr>ClientID = ''id'', APIKey = ''key''\<rparr> ''/droplets/5/rename?name=web'' =
       ''https://api.digitalocean.com/v1/droplets/5/rename?name=web&client_id=id&api_key=key''
   \<and> perform \<lparr>ClientID = ''id'', APIKey = ''key''\<rparr>
         (\<lambda>url. if HasPrefix url ''https://api.digitalocean.com/v1'' then GetFailed ''timeout''
                else Body ''{}'')
         \<lparr>unmarshal_Event = \<lambda>body. Inl ''unused'', unmarshal_Regions = \<lambda>body. Inl ''unused'',
          unmarshal_Sizes = \<lambda>body. Inl ''unused'', unmarshal_PartialDroplet = \<lambda>body. Inl ''unused'',
          unmarshal_EventID = \<lambda>body. Inl ''unused'', unmarshal_Droplets = \<lambda>body. Inl ''unused'',
          unmarshal_Droplet = \<lambda>body. Inl ''unused'', unmarshal_PartialDomain = \<lambda>body. Inl ''unused'',
          unmarshal_Status = \<lambda>body. Inl ''unused'', unmarshal_Domains = \<lambda>body. Inl ''unused'',
          unmarshal_Domain = \<lambda>body. Inl ''unused'', unmarshal_Record = \<lambda>body. Inl ''unused'',
          unmarshal_Records = \<lambda>body. Inl ''unused'', unmarshal_Images = \<lambda>body. Inl ''unused'',
          unmarshal_Image = \<lambda>body. Inl ''unused'', IP_String = \<lambda>ip. ''192.0.2.1''\<rparr>
         (OpRenameDroplet 5 ''web'') [] =
       (Return (AEventID 0, Some (HttpError ''timeout'')),
        [''https://api.digitalocean.com/v1/droplets/5/rename?name=web&client_id=id&api_key=key''])"
  using doGet_credentials_last[where c = "\<lparr>ClientID = ''id'', APIKey = ''key''\<rparr>"
      and endpoint = "''/droplets/5/rename?name=web''"
      and http = "\<lambda>url. GetFailed ''timeout''"
      and http' = "\<lambda>url. if HasPrefix url ''https://api.digitalocean.com/v1''
                        then GetFailed ''timeout'' else Body ''{}''"
      and d = "\<lparr>unmarshal_Event = \<lambda>body. Inl ''unused'', unmarshal_Regions = \<lambda>body. Inl ''unused'',
          unmarshal_Sizes = \<lambda>body. Inl ''unused'', unmarshal_PartialDroplet = \<lambda>body. Inl ''unused'',
          unmarshal_EventID = \<lambda>body. Inl ''unused'', unmarshal_Droplets = \<lambda>body. Inl ''unused'',
          unmarshal_Droplet = \<lambda>body. Inl ''unused'', unmarshal_PartialDomain = \<lambda>body. Inl ''unused'',
          unmarshal_Status = \<lambda>body. Inl ''unused'', unmarshal_Domains = \<lambda>body. Inl ''unused'',
          unmarshal_Domain = \<lambda>body. Inl ''unused'', unmarshal_Record = \<lambda>body. Inl ''unused'',
          unmarshal_Records = \<lambda>body. Inl ''unused'', unmarshal_Images = \<lambda>body. Inl ''unused'',
          unmarshal_Image = \<lambda>body. Inl ''unused'', IP_String = \<lambda>ip. ''192.0.2.1''\<rparr>"
      and call = "OpRenameDroplet 5 ''web''" and reqs = "[]"]
  by (simp add: APIURL_def RenameDroplet_def doGet_def doGet_url_eq Let_def Sprintf_eval fmtd_def
      digits.simps)

text \<open>
  The claim without the condition fails. \<open>RenameDroplet\<close> with the name \<^verbatim>\<open>web#1\<close>
  requests a URL whose fragment starts in the name: the request carries the one
  parameter \<^verbatim>\<open>name=web\<close> and no credentials. With the stored identifier \<^verbatim>\<open>a&b\<close>
  the last two parameters are \<^verbatim>\<open>b\<close> and \<^verbatim>\<open>api_key\<close>.
\<close>

theorem credentials_last_counterexample:
  "snd (RenameDroplet \<lparr>ClientID = ''id'', APIKey = ''key''\<rparr> (\<lambda>url. Body ''{}'')
          (\<lambda>body. Inl ''unused'') 5 ''web#1'' []) =
     [''https://api.digitalocean.com/v1/droplets/5/rename?name=web#1&client_id=id&api_key=key'']
   \<and> query_params
         ''https://api.digitalocean.com/v1/droplets/5/rename?name=web#1&client_id=id&api_key=key'' =
       [(''name'', ''web'')]
   \<and> \<not> credentials_last \<lparr>ClientID = ''id'', APIKey = ''key''\<rparr>
         ''https://api.digitalocean.com/v1/droplets/5/rename?name=web#1&client_id=id&api_key=key''
   \<and> doGet_url \<lparr>ClientID = ''a&b'', APIKey = ''key''\<rparr> ''/regions'' =
       ''https://api.digitalocean.com/v1/regions?client_id=a&b&api_key=key''
   \<and> query_params ''https://api.digitalocean.com/v1/regions?client_id=a&b&api_key=key'' =
       [(''client_id'', ''a''), (''b'', []), (''api_key'', ''key'')]
   \<and> \<not> credentials_last \<lparr>ClientID = ''a&b'', APIKey = ''key''\<rparr>
         ''https://api.digitalocean.com/v1/regions?client_id=a&b&api_key=key''"
  by (simp add: RenameDroplet_def snd_after_doGet Sprintf_eval doGet_url_eq APIURL_def fmtd_def
      digits.simps query_params_def Let_def key_value_def credentials_last_def credentials_def)

section \<open>Validation of a new droplet\<close>

text \<open>
  C4. When some selector of a new droplet (size, image or region) has the numeric
  id zero and the slug empty, \<open>CreateDroplet\<close> returns nil and the error
  \<^verbatim>\<open>"<selector> ID or slug must be set"\<close> that names such a selector (the first
  one in the order size, image, region when several are missing), and the list
  of requests is unchanged: the network is not reached.
\<close>

theorem CreateDroplet_missing_selector:
  assumes "missing_selectors n \<noteq> []"
  shows "hd (missing_selectors n) \<in> set (missing_selectors n)
       \<and> CreateDroplet c http unmarshal n reqs =
           (Return (None, Some (ErrorString (hd (missing_selectors n) @ '' ID or slug must be set''))),
            reqs)"
  using assms CreateDroplet_rejects[of n c http unmarshal reqs] by simp

theorem CreateDroplet_missing_selector_witness:
  "missing_selectors \<lparr>NewDroplet.Name = ''web'', SizeID = 66, SizeSlug = [], ImageID = 0,
       ImageSlug = [], RegionID = 0, RegionSlug = [], SSHKeyIDs = [], PrivateNetworking = False,
       BackupsEnabled = False\<rparr> = [''image'', ''region'']
   \<and> CreateDroplet \<lparr>ClientID = ''id'', APIKey = ''key''\<rparr> (\<lambda>url. Body ''{}'')
       (\<lambda>body. Inl ''unused'')
       \<lparr>NewDroplet.Name = ''web'', SizeID = 66, SizeSlug = [], ImageID = 0,
       ImageSlug = [], RegionID = 0, RegionSlug = [], SSHKeyIDs = [], PrivateNetworking = False,
       BackupsEnabled = False\<rparr> [] =
     (Return (None, Some (ErrorString ''image ID or slug must be set'')), [])"
  using CreateDroplet_missing_selector[where n = "\<lparr>NewDroplet.Name = ''web'', SizeID = 66,
       SizeSlug = [], ImageID = 0, ImageSlug = [], RegionID = 0, RegionSlug = [], SSHKeyIDs = [],
       PrivateNetworking = False, BackupsEnabled = False\<rparr>"
      and c = "\<lparr>ClientID = ''id'', APIKey = ''key''\<rparr>" and http = "\<lambda>url. Body ''{}''"
      and unmarshal = "\<lambda>body. Inl ''unused''" and reqs = "[]"]
  by (simp add: missing_selectors_def)

section \<open>A new droplet without a name\<close>

text \<open>
  C2. \<open>CreateDroplet\<close> does not look at the name. For every new droplet whose
  name is empty and whose three selectors are supplied, it requests the URL
  whose query string starts with \<^verbatim>\<open>name=&\<close>: the network is reached and no
  validation error is returned.
\<close>

theorem CreateDroplet_empty_name:
  assumes "NewDroplet.Name n = []" and "missing_selectors n = []"
  shows "snd (CreateDroplet c http unmarshal n reqs) =
        reqs @ [APIURL @ ''/droplets/new?name=''
          @ (if NewDroplet.SizeID n \<noteq> 0 then ''&size_id='' @ fmtd (NewDroplet.SizeID n)
             else ''&size_slug='' @ NewDroplet.SizeSlug n)
          @ (if NewDroplet.ImageID n \<noteq> 0 then ''&image_id='' @ fmtd (NewDroplet.ImageID n)
             else ''&image_slug='' @ NewDroplet.ImageSlug n)
          @ (if NewDroplet.RegionID n \<noteq> 0 then ''&region_id='' @ fmtd (NewDroplet.RegionID n)
             else ''&region_slug='' @ NewDroplet.RegionSlug n)
          @ optional_param ''ssh_key_ids'' (NewDroplet.SSHKeyIDs n \<noteq> [])
              (Join (NewDroplet.SSHKeyIDs n) '','')
          @ optional_param ''private_networking'' (NewDroplet.PrivateNetworking n) ''true''
          @ optional_param ''backups_enabled'' (NewDroplet.BackupsEnabled n) ''true''
          @ ''&client_id='' @ ClientID c @ ''&api_key='' @ APIKey c]"
proof -
  have "snd (CreateDroplet c http unmarshal n reqs) =
        reqs @ [doGet_url c (''/droplets/new?name='' @ NewDroplet.Name n
          @ (if NewDroplet.SizeID n \<noteq> 0 then ''&size_id='' @ fmtd (NewDroplet.SizeID n)
             else ''&size_slug='' @ NewDroplet.SizeSlug n)
          @ (if NewDroplet.ImageID n \<noteq> 0 then ''&image_id='' @ fmtd (NewDroplet.ImageID n)
             else ''&image_slug='' @ NewDroplet.ImageSlug n)
          @ (if NewDroplet.RegionID n \<noteq> 0 then ''&region_id='' @ fmtd (NewDroplet.RegionID n)
             else ''&region_slug='' @ NewDroplet.RegionSlug n)
          @ optional_param ''ssh_key_ids'' (NewDroplet.SSHKeyIDs n \<noteq> [])
              (Join (NewDroplet.SSHKeyIDs n) '','')
          @ optional_param ''private_networking'' (NewDroplet.PrivateNetworking n) ''true''
          @ optional_param ''backups_enabled'' (NewDroplet.BackupsEnabled n) ''true'')]"
    using assms(2) unfolding missing_selectors_Nil by (intro CreateDroplet_reqs) simp_all
  then show ?thesis using assms(1) by (simp add: doGet_url_eq)
qed

theorem CreateDroplet_empty_name_witness:
  "CreateDroplet \<lparr>ClientID = ''id'', APIKey = ''key''\<rparr>
       (\<lambda>url. Body ''{\"status\":\"OK\",\"droplet\":{\"id\":7,\"event_id\":9}}'')
       (\<lambda>body. Inr \<lparr>CreateDroplet_DOResp.Status = ''OK'',
          Droplet = \<lparr>PartialDroplet.ID = 7, Name = [], ImageID = 0, SizeID = 0, EventID = 9\<rparr>,
          Message = []\<rparr>)
       \<lparr>NewDroplet.Name = [], SizeID = 66, SizeSlug = [], ImageID = 2, ImageSlug = [],
        RegionID = 1, RegionSlug = [], SSHKeyIDs = [], PrivateNetworking = False,
        BackupsEnabled = False\<rparr> [] =
     (Return (Some \<lparr>PartialDroplet.ID = 7, Name = [], ImageID = 0, SizeID = 0, EventID = 9\<rparr>, None),
      [''https://api.digitalocean.com/v1/droplets/new?name=&size_id=66&image_id=2&region_id=1&client_id=id&api_key=key''])"
  using CreateDroplet_empty_name[where n = "\<lparr>NewDroplet.Name = [], SizeID = 66, SizeSlug = [],
        ImageID = 2, ImageSlug = [], RegionID = 1, RegionSlug = [], SSHKeyIDs = [],
        PrivateNetworking = False, BackupsEnabled = False\<rparr>"
      and c = "\<lparr>ClientID = ''id'', APIKey = ''key''\<rparr>"
      and http = "\<lambda>url. Body ''{\"status\":\"OK\",\"droplet\":{\"id\":7,\"event_id\":9}}''"
      and unmarshal = "\<lambda>body. Inr \<lparr>CreateDroplet_DOResp.Status = ''OK'',
          Droplet = \<lparr>PartialDroplet.ID = 7, Name = [], ImageID = 0, SizeID = 0, EventID = 9\<rparr>,
          Message = []\<rparr>" and reqs = "[]"]
  by (simp add: CreateDroplet_def doGet_def Let_def Sprintf_formats doGet_url_eq APIURL_def
      StatusError_def fmtd_def digits.simps missing_selectors_def optional_param_def)

section \<open>Selectors given in both forms\<close>

lemma CreateDroplet_endpoint:
  assumes "NewDroplet.SizeID n \<noteq> 0 \<or> NewDroplet.SizeSlug n \<noteq> []"
    and "NewDroplet.ImageID n \<noteq> 0 \<or> NewDroplet.ImageSlug n \<noteq> []"
    and "NewDroplet.RegionID n \<noteq> 0 \<or> NewDroplet.RegionSlug n \<noteq> []"
  shows "CreateDroplet c http unmarshal n reqs =
     (case doGet c http unmarshal (''/droplets/new?name='' @ NewDroplet.Name n
          @ (if NewDroplet.SizeID n \<noteq> 0 then ''&size_id='' @ fmtd (NewDroplet.SizeID n)
             else ''&size_slug='' @ NewDroplet.SizeSlug n)
          @ (if NewDroplet.ImageID n \<noteq> 0 then ''&image_id='' @ fmtd (NewDroplet.ImageID n)
             else ''&image_slug='' @ NewDroplet.ImageSlug n)
          @ (if NewDroplet.RegionID n \<noteq> 0 then ''&region_id='' @ fmtd (NewDroplet.RegionID n)
             else ''&region_slug='' @ NewDroplet.RegionSlug n)
          @ optional_param ''ssh_key_ids'' (NewDroplet.SSHKeyIDs n \<noteq> [])
              (Join (NewDroplet.SSHKeyIDs n) '','')
          @ optional_param ''private_networking'' (NewDroplet.PrivateNetworking n) ''true''
          @ optional_param ''backups_enabled'' (NewDroplet.BackupsEnabled n) ''true'') reqs of
        (Panic p, reqs') \<Rightarrow> (Panic p, reqs')
      | (Return (Inl err), reqs') \<Rightarrow> (Return (None, Some err), reqs')
      | (Return (Inr DOResp), reqs') \<Rightarrow>
          if CreateDroplet_DOResp.Status DOResp = StatusError then
            (Return (None, Some (ErrorString
               (''could not create droplet: '' @ CreateDroplet_DOResp.Message DOResp))), reqs')
          else (Return (Some (CreateDroplet_DOResp.Droplet DOResp), None), reqs'))"
proof -
  have msg: "Errorf ''could not create droplet: %v'' [GoString m] =
      ErrorString (''could not create droplet: '' @ m)" for m
    by (simp add: Errorf_def Sprintf_eval)
  show ?thesis
    using assms unfolding CreateDroplet_def Let_def msg
    by (simp add: Sprintf_formats optional_param_def)
qed

lemma CreateDroplet_after_doGet:
  "(case doGet c http unmarshal endpoint reqs of
      (Panic p, reqs') \<Rightarrow> (Panic p, reqs')
    | (Return (Inl err), reqs') \<Rightarrow> (Return (None, Some err), reqs')
    | (Return (Inr DOResp), reqs') \<Rightarrow>
        if CreateDroplet_DOResp.Status DOResp = StatusError then
          (Return (None, Some (ErrorString
             (''could not create droplet: '' @ CreateDroplet_DOResp.Message DOResp))), reqs')
        else (Return (Some (CreateDroplet_DOResp.Droplet DOResp), None), reqs')) =
   (case http (doGet_url c endpoint) of
      GetFailed e \<Rightarrow> Return (None, Some (HttpError e))
    | ReadAllFailed e \<Rightarrow> Panic (ReadError e)
    | Body body \<Rightarrow>
        (case unmarshal body of
           Inl e \<Rightarrow> Panic (JsonError e)
         | Inr DOResp \<Rightarrow>
             if CreateDroplet_DOResp.Status DOResp = StatusError
             then Return (None, Some (ErrorString
                    (''could not create droplet: '' @ CreateDroplet_DOResp.Message DOResp)))
             else Return (Some (CreateDroplet_DOResp.Droplet DOResp), None)),
    reqs @ [doGet_url c endpoint])"
  unfolding doGet_eq by (simp split: http_response.splits sum.splits)

lemma CreateDroplet_accepts:
  assumes "missing_selectors n = []"
  shows "CreateDroplet c http unmarshal n reqs =
     (let url = doGet_url c (''/droplets/new?name='' @ NewDroplet.Name n
          @ (if NewDroplet.SizeID n \<noteq> 0 then ''&size_id='' @ fmtd (NewDroplet.SizeID n)
             else ''&size_slug='' @ NewDroplet.SizeSlug n)
          @ (if NewDroplet.ImageID n \<noteq> 0 then ''&image_id='' @ fmtd (NewDroplet.ImageID n)
             else ''&image_slug='' @ NewDroplet.ImageSlug n)
          @ (if NewDroplet.RegionID n \<noteq> 0 then ''&region_id='' @ fmtd (NewDroplet.RegionID n)
             else ''&region_slug='' @ NewDroplet.RegionSlug n)
          @ optional_param ''ssh_key_ids'' (NewDroplet.SSHKeyIDs n \<noteq> [])
              (Join (NewDroplet.SSHKeyIDs n) '','')
          @ optional_param ''private_networking'' (NewDroplet.PrivateNetworking n) ''true''
          @ optional_param ''backups_enabled'' (NewDroplet.BackupsEnabled n) ''true'')
      in (case http url of
            GetFailed e \<Rightarrow> Return (None, Some (HttpError e))
          | ReadAllFailed e \<Rightarrow> Panic (ReadError e)
          | Body body \<Rightarrow>
              (case unmarshal body of
                 Inl e \<Rightarrow> Panic (JsonError e)
               | Inr DOResp \<Rightarrow>
                   if CreateDroplet_DOResp.Status DOResp = StatusError
                   then Return (None, Some (ErrorString
                          (''could not create droplet: '' @ CreateDroplet_DOResp.Message DOResp)))
                   else Return (Some (CreateDroplet_DOResp.Droplet DOResp), None)),
          reqs @ [url]))"
  using assms unfolding missing_selectors_Nil Let_def
  by (simp only: CreateDroplet_endpoint CreateDroplet_after_doGet)

text \<open>
  C10, as the code has it. \<open>CreateDroplet\<close> does not reject a selector given both
  as a numeric id and as a slug, provided that no selector is missing altogether
  (a selector with the id zero and the slug empty is still rejected, whatever the
  other selectors are: see the counterexample).
  When each of the size, the image and the region is supplied in some form, the
  call is never answered with a validation error: it asks the transport for one
  URL, and what it returns is decided by the answer to that URL alone. The query
  string of that URL carries, for each selector, the numeric id whenever that id
  is not zero, and the slug only when the id is zero: a selector given in both
  forms is sent by id, and its slug is sent nowhere. The slug that accompanies a
  non-zero id is dropped without notice: the call behaves exactly as it does for
  any other value of that slug, the empty one included.
\<close>

theorem CreateDroplet_id_and_slug:
  "(missing_selectors n = [] \<longrightarrow>
      CreateDroplet c http unmarshal n reqs =
        (let url = APIURL @ ''/droplets/new?name='' @ NewDroplet.Name n
             @ (if NewDroplet.SizeID n \<noteq> 0 then ''&size_id='' @ fmtd (NewDroplet.SizeID n)
                else ''&size_slug='' @ NewDroplet.SizeSlug n)
             @ (if NewDroplet.ImageID n \<noteq> 0 then ''&image_id='' @ fmtd (NewDroplet.ImageID n)
                else ''&image_slug='' @ NewDroplet.ImageSlug n)
             @ (if NewDroplet.RegionID n \<noteq> 0 then ''&region_id='' @ fmtd (NewDroplet.RegionID n)
                else ''&region_slug='' @ NewDroplet.RegionSlug n)
             @ optional_param ''ssh_key_ids'' (NewDroplet.SSHKeyIDs n \<noteq> [])
                 (Join (NewDroplet.SSHKeyIDs n) '','')
             @ optional_param ''private_networking'' (NewDroplet.PrivateNetworking n) ''true''
             @ optional_param ''backups_enabled'' (NewDroplet.BackupsEnabled n) ''true''
             @ ''&client_id='' @ ClientID c @ ''&api_key='' @ APIKey c
         in (case http url of
               GetFailed e \<Rightarrow> Return (None, Some (HttpError e))
             | ReadAllFailed e \<Rightarrow> Panic (ReadError e)
             | Body body \<Rightarrow>
                 (case unmarshal body of
                    Inl e \<Rightarrow> Panic (JsonError e)
                  | Inr DOResp \<Rightarrow>
                      if CreateDroplet_DOResp.Status DOResp = StatusError
                      then Return (None, Some (ErrorString
                             (''could not create droplet: '' @ CreateDroplet_DOResp.Message DOResp)))
                      else Return (Some (CreateDroplet_DOResp.Droplet DOResp), None)),
             reqs @ [url])))
   \<and> (NewDroplet.SizeID n \<noteq> 0 \<longrightarrow>
        CreateDroplet c http unmarshal (n\<lparr>SizeSlug := slug\<rparr>) reqs =
        CreateDroplet c http unmarshal n reqs)
   \<and> (NewDroplet.ImageID n \<noteq> 0 \<longrightarrow>
        CreateDroplet c http unmarshal (n\<lparr>ImageSlug := slug\<rparr>) reqs =
        CreateDroplet c http unmarshal n reqs)
   \<and> (NewDroplet.RegionID n \<noteq> 0 \<longrightarrow>
        CreateDroplet c http unmarshal (n\<lparr>RegionSlug := slug\<rparr>) reqs =
        CreateDroplet c http unmarshal n reqs)"
proof (intro conjI impI)
  assume "missing_selectors n = []"
  then show "CreateDroplet c http unmarshal n reqs =
        (let url = APIURL @ ''/droplets/new?name='' @ NewDroplet.Name n
             @ (if NewDroplet.SizeID n \<noteq> 0 then ''&size_id='' @ fmtd (NewDroplet.SizeID n)
                else ''&size_slug='' @ NewDroplet.SizeSlug n)
             @ (if NewDroplet.ImageID n \<noteq> 0 then ''&image_id='' @ fmtd (NewDroplet.ImageID n)
                else ''&image_slug='' @ NewDroplet.ImageSlug n)
             @ (if NewDroplet.RegionID n \<noteq> 0 then ''&region_id='' @ fmtd (NewDroplet.RegionID n)
                else ''&region_slug='' @ NewDroplet.RegionSlug n)
             @ optional_param ''ssh_key_ids'' (NewDroplet.SSHKeyIDs n \<noteq> [])
                 (Join (NewDroplet.SSHKeyIDs n) '','')
             @ optional_param ''private_networking'' (NewDroplet.PrivateNetworking n) ''true''
             @ optional_param ''backups_enabled'' (NewDroplet.BackupsEnabled n) ''true''
             @ ''&client_id='' @ ClientID c @ ''&api_key='' @ APIKey c
         in (case http url of
               GetFailed e \<Rightarrow> Return (None, Some (HttpError e))
             | ReadAllFailed e \<Rightarrow> Panic (ReadError e)
             | Body body \<Rightarrow>
                 (case unmarshal body of
                    Inl e \<Rightarrow> Panic (JsonError e)
                  | Inr DOResp \<Rightarrow>
                      if CreateDroplet_DOResp.Status DOResp = StatusError
                      then Return (None, Some (ErrorString
                             (''could not create droplet: '' @ CreateDroplet_DOResp.Message DOResp)))
                      else Return (Some (CreateDroplet_DOResp.Droplet DOResp), None)),
             reqs @ [url]))"
    by (simp add: CreateDroplet_accepts doGet_url_eq Let_def)
next
  assume "NewDroplet.SizeID n \<noteq> 0"
  then show "CreateDroplet c http unmarshal (n\<lparr>SizeSlug := slug\<rparr>) reqs =
        CreateDroplet c http unmarshal n reqs"
    by (simp add: CreateDroplet_def Let_def)
next
  assume "NewDroplet.ImageID n \<noteq> 0"
  then show "CreateDroplet c http unmarshal (n\<lparr>ImageSlug := slug\<rparr>) reqs =
        CreateDroplet c http unmarshal n reqs"
    by (simp add: CreateDroplet_def Let_def)
next
  assume "NewDroplet.RegionID n \<noteq> 0"
  then show "CreateDroplet c http unmarshal (n\<lparr>RegionSlug := slug\<rparr>) reqs =
        CreateDroplet c http unmarshal n reqs"
    by (simp add: CreateDroplet_def Let_def)
qed

theorem CreateDroplet_id_and_slug_witness:
  "missing_selectors \<lparr>NewDroplet.Name = ''web'', SizeID = 66, SizeSlug = ''512mb'', ImageID = 2,
       ImageSlug = ''ubuntu'', RegionID = 1, RegionSlug = ''nyc1'', SSHKeyIDs = [],
       PrivateNetworking = False, BackupsEnabled = False\<rparr> = []
   \<and> CreateDroplet \<lparr>ClientID = ''id'', APIKey = ''key''\<rparr>
       (\<lambda>url. if url = ''https://api.digitalocean.com/v1/droplets/new?name=web&size_id=66&image_id=2&region_id=1&client_id=id&api_key=key''
              then Body ''{\"status\":\"OK\",\"droplet\":{\"id\":7,\"event_id\":9}}''
              else GetFailed ''not requested'')
       (\<lambda>body. Inr \<lparr>CreateDroplet_DOResp.Status = ''OK'',
          Droplet = \<lparr>PartialDroplet.ID = 7, Name = ''web'', ImageID = 2, SizeID = 66, EventID = 9\<rparr>,
          Message = []\<rparr>)
       \<lparr>NewDroplet.Name = ''web'', SizeID = 66, SizeSlug = ''512mb'', ImageID = 2,
       ImageSlug = ''ubuntu'', RegionID = 1, RegionSlug = ''nyc1'', SSHKeyIDs = [],
       PrivateNetworking = False, BackupsEnabled = False\<rparr> [] =
     (Return (Some \<lparr>PartialDroplet.ID = 7, Name = ''web'', ImageID = 2, SizeID = 66, EventID = 9\<rparr>,
        None),
      [''https://api.digitalocean.com/v1/droplets/new?name=web&size_id=66&image_id=2&region_id=1&client_id=id&api_key=key''])
   \<and> CreateDroplet \<lparr>ClientID = ''id'', APIKey = ''key''\<rparr>
       (\<lambda>url. if url = ''https://api.digitalocean.com/v1/droplets/new?name=web&size_id=66&image_id=2&region_id=1&client_id=id&api_key=key''
              then Body ''{\"status\":\"OK\",\"droplet\":{\"id\":7,\"event_id\":9}}''
              else GetFailed ''not requested'')
       (\<lambda>body. Inr \<lparr>CreateDroplet_DOResp.Status = ''OK'',
          Droplet = \<lparr>PartialDroplet.ID = 7, Name = ''web'', ImageID = 2, SizeID = 66, EventID = 9\<rparr>,
          Message = []\<rparr>)
       \<lparr>NewDroplet.Name = ''web'', SizeID = 66, SizeSlug = [], ImageID = 2,
       ImageSlug = ''ubuntu'', RegionID = 1, RegionSlug = ''nyc1'', SSHKeyIDs = [],
       PrivateNetworking = False, BackupsEnabled = False\<rparr> [] =
     (Return (Some \<lparr>PartialDroplet.ID = 7, Name = ''web'', ImageID = 2, SizeID = 66, EventID = 9\<rparr>,
        None),
      [''https://api.digitalocean.com/v1/droplets/new?name=web&size_id=66&image_id=2&region_id=1&client_id=id&api_key=key''])"
  using CreateDroplet_id_and_slug[where n = "\<lparr>NewDroplet.Name = ''web'', SizeID = 66,
       SizeSlug = ''512mb'', ImageID = 2, ImageSlug = ''ubuntu'', RegionID = 1,
       RegionSlug = ''nyc1'', SSHKeyIDs = [], PrivateNetworking = False, BackupsEnabled = False\<rparr>"
      and c = "\<lparr>ClientID = ''id'', APIKey = ''key''\<rparr>"
      and http = "\<lambda>url. if url = ''https://api.digitalocean.com/v1/droplets/new?name=web&size_id=66&image_id=2&region_id=1&client_id=id&api_key=key''
              then Body ''{\"status\":\"OK\",\"droplet\":{\"id\":7,\"event_id\":9}}''
              else GetFailed ''not requested''"
      and unmarshal = "\<lambda>body. Inr \<lparr>CreateDroplet_DOResp.Status = ''OK'',
          Droplet = \<lparr>PartialDroplet.ID = 7, Name = ''web'', ImageID = 2, SizeID = 66, EventID = 9\<rparr>,
          Message = []\<rparr>"
      and reqs = "[]" and slug = "[]"]
  by (simp add: missing_selectors_def APIURL_def optional_param_def fmtd_def digits.simps
      StatusError_def Let_def)

text \<open>
  The claim without the condition fails. With the size given in both forms and
  the image not given at all, \<open>CreateDroplet\<close> rejects the input and requests
  nothing.
\<close>

theorem CreateDroplet_id_and_slug_counterexample:
  "NewDroplet.SizeID \<lparr>NewDroplet.Name = ''web'', SizeID = 66, SizeSlug = ''512mb'', ImageID = 0,
       ImageSlug = [], RegionID = 1, RegionSlug = ''nyc1'', SSHKeyIDs = [],
       PrivateNetworking = False, BackupsEnabled = False\<rparr> = 66
   \<and> NewDroplet.SizeSlug \<lparr>NewDroplet.Name = ''web'', SizeID = 66, SizeSlug = ''512mb'', ImageID = 0,
       ImageSlug = [], RegionID = 1, RegionSlug = ''nyc1'', SSHKeyIDs = [],
       PrivateNetworking = False, BackupsEnabled = False\<rparr> = ''512mb''
   \<and> CreateDroplet \<lparr>ClientID = ''id'', APIKey = ''key''\<rparr>
       (\<lambda>url. Body ''{\"status\":\"OK\",\"droplet\":{\"id\":7,\"event_id\":9}}'')
       (\<lambda>body. Inr \<lparr>CreateDroplet_DOResp.Status = ''OK'',
          Droplet = \<lparr>PartialDroplet.ID = 7, Name = ''web'', ImageID = 2, SizeID = 66, EventID = 9\<rparr>,
          Message = []\<rparr>)
       \<lparr>NewDroplet.Name = ''web'', SizeID = 66, SizeSlug = ''512mb'', ImageID = 0,
       ImageSlug = [], RegionID = 1, RegionSlug = ''nyc1'', SSHKeyIDs = [],
       PrivateNetworking = False, BackupsEnabled = False\<rparr> [] =
     (Return (None, Some (ErrorString ''image ID or slug must be set'')), [])"
  by (simp add: CreateDroplet_def Errorf_plain)

section \<open>Optional fields\<close>

text \<open>
  C6. When the required fields are present, the URL requested by
  \<open>CreateDomainRecord\<close> and by \<open>CreateDroplet\<close> is the path, \<^verbatim>\<open>?\<close>, and the
  parameters of the record (of the droplet) followed by the credentials, written
  \<^verbatim>\<open>key=value\<close> and joined by \<^verbatim>\<open>&\<close>. These parameters hold an entry for an optional
  field only when it is supplied (a non-empty name, a non-zero priority, port or
  weight; a non-empty list of ssh keys, a flag that is set): a zero-valued
  optional field leaves no trace in the URL. When no value has an \<^verbatim>\<open>&\<close> or a \<^verbatim>\<open>#\<close>
  in it (and the domain no \<^verbatim>\<open>?\<close> and no \<^verbatim>\<open>#\<close>), the query of the URL, read back, is
  exactly this list of parameters. (The name of a droplet is a required field and
  is always sent.)
\<close>

theorem optional_fields_omitted:
  "(DomainRecord.RecordType r \<noteq> [] \<and> DomainRecord.Data r \<noteq> [] \<longrightarrow>
      snd (CreateDomainRecord c http unmarshal domainID r reqs) =
        reqs @ [APIURL @ ''/domains/'' @ fmt_v domainID @ ''/records/new?''
                  @ encode_params (record_params r @ credentials c)]
      \<and> (CHR ''?'' \<notin> set (fmt_v domainID) \<and> CHR ''#'' \<notin> set (fmt_v domainID)
           \<and> list_all (\<lambda>v. CHR ''&'' \<notin> set v \<and> CHR ''#'' \<notin> set v)
                [DomainRecord.RecordType r, DomainRecord.Data r, DomainRecord.Name r,
                 ClientID c, APIKey c] \<longrightarrow>
          query_params (last (snd (CreateDomainRecord c http unmarshal domainID r reqs))) =
            record_params r @ credentials c))
   \<and> (missing_selectors n = [] \<longrightarrow>
      snd (CreateDroplet c http unmarshal' n reqs) =
        reqs @ [APIURL @ ''/droplets/new?'' @ encode_params (droplet_params n @ credentials c)]
      \<and> (list_all (\<lambda>v. CHR ''&'' \<notin> set v \<and> CHR ''#'' \<notin> set v)
                ([NewDroplet.Name n, NewDroplet.SizeSlug n, NewDroplet.ImageSlug n,
                  NewDroplet.RegionSlug n, ClientID c, APIKey c] @ NewDroplet.SSHKeyIDs n) \<longrightarrow>
          query_params (last (snd (CreateDroplet c http unmarshal' n reqs))) =
            droplet_params n @ credentials c))"
proof (intro conjI impI)
  assume v: "DomainRecord.RecordType r \<noteq> [] \<and> DomainRecord.Data r \<noteq> []"
  then have v1: "DomainRecord.RecordType r \<noteq> []" and v2: "DomainRecord.Data r \<noteq> []"
    by simp_all
  show u: "snd (CreateDomainRecord c http unmarshal domainID r reqs) =
        reqs @ [APIURL @ ''/domains/'' @ fmt_v domainID @ ''/records/new?''
                  @ encode_params (record_params r @ credentials c)]"
    unfolding CreateDomainRecord_reqs[OF v1 v2] record_query_encode[OF v1 v2] ..
  assume s: "CHR ''?'' \<notin> set (fmt_v domainID) \<and> CHR ''#'' \<notin> set (fmt_v domainID)
           \<and> list_all (\<lambda>v. CHR ''&'' \<notin> set v \<and> CHR ''#'' \<notin> set v)
                [DomainRecord.RecordType r, DomainRecord.Data r, DomainRecord.Name r,
                 ClientID c, APIKey c]"
  then have nq: "CHR ''?'' \<notin> set (APIURL @ ''/domains/'' @ fmt_v domainID @ ''/records/new'')"
    and nh: "CHR ''#'' \<notin> set (APIURL @ ''/domains/'' @ fmt_v domainID @ ''/records/new'')"
    by (simp_all add: APIURL_def)
  have amp: "list_all (\<lambda>v. CHR ''&'' \<notin> set v)
                [DomainRecord.RecordType r, DomainRecord.Data r, DomainRecord.Name r,
                 ClientID c, APIKey c]"
    and hash: "list_all (\<lambda>v. CHR ''#'' \<notin> set v)
                [DomainRecord.RecordType r, DomainRecord.Data r, DomainRecord.Name r,
                 ClientID c, APIKey c]"
    using s by simp_all
  have ne: "record_params r @ credentials c \<noteq> []" by (simp add: credentials_def)
  have "query_params ((APIURL @ ''/domains/'' @ fmt_v domainID @ ''/records/new'') @ ''?''
          @ encode_params (record_params r @ credentials c)) = record_params r @ credentials c"
    by (rule query_params_encode[OF nq ne nh record_params_hash[OF hash] record_params_safe[OF amp]])
  then show "query_params (last (snd (CreateDomainRecord c http unmarshal domainID r reqs))) =
            record_params r @ credentials c"
    unfolding u by simp
next
  assume "missing_selectors n = []"
  then have m1: "NewDroplet.SizeID n \<noteq> 0 \<or> NewDroplet.SizeSlug n \<noteq> []"
    and m2: "NewDroplet.ImageID n \<noteq> 0 \<or> NewDroplet.ImageSlug n \<noteq> []"
    and m3: "NewDroplet.RegionID n \<noteq> 0 \<or> NewDroplet.RegionSlug n \<noteq> []"
    unfolding missing_selectors_Nil by simp_all
  show u: "snd (CreateDroplet c http unmarshal' n reqs) =
        reqs @ [APIURL @ ''/droplets/new?'' @ encode_params (droplet_params n @ credentials c)]"
    unfolding CreateDroplet_reqs[OF m1 m2 m3] droplet_query_encode ..
  assume s: "list_all (\<lambda>v. CHR ''&'' \<notin> set v \<and> CHR ''#'' \<notin> set v)
                ([NewDroplet.Name n, NewDroplet.SizeSlug n, NewDroplet.ImageSlug n,
                  NewDroplet.RegionSlug n, ClientID c, APIKey c] @ NewDroplet.SSHKeyIDs n)"
  have nq: "CHR ''?'' \<notin> set (APIURL @ ''/droplets/new'')"
    and nh: "CHR ''#'' \<notin> set (APIURL @ ''/droplets/new'')"
    by (simp_all add: APIURL_def)
  have amp: "list_all (\<lambda>v. CHR ''&'' \<notin> set v)
                ([NewDroplet.Name n, NewDroplet.SizeSlug n, NewDroplet.ImageSlug n,
                  NewDroplet.RegionSlug n, ClientID c, APIKey c] @ NewDroplet.SSHKeyIDs n)"
    and hash: "list_all (\<lambda>v. CHR ''#'' \<notin> set v)
                ([NewDroplet.Name n, NewDroplet.SizeSlug n, NewDroplet.ImageSlug n,
                  NewDroplet.RegionSlug n, ClientID c, APIKey c] @ NewDroplet.SSHKeyIDs n)"
    using s by (simp_all add: list_all_iff)
  have ne: "droplet_params n @ credentials c \<noteq> []" by (simp add: credentials_def)
  have "query_params ((APIURL @ ''/droplets/new'') @ ''?''
          @ encode_params (droplet_params n @ credentials c)) = droplet_params n @ credentials c"
    by (rule query_params_encode[OF nq ne nh droplet_params_hash[OF hash] droplet_params_safe[OF amp]])
  then show "query_params (last (snd (CreateDroplet c http unmarshal' n reqs))) =
            droplet_params n @ credentials c"
    unfolding u by simp
qed

theorem optional_fields_omitted_witness:
  "snd (CreateDomainRecord \<lparr>ClientID = ''id'', APIKey = ''key''\<rparr> (\<lambda>url. Body ''{}'')
       (\<lambda>body. Inl ''unused'') (GoString ''example.com'')
       \<lparr>DomainRecord.ID = 0, DomainID = 0, RecordType = ''MX'', Name = [],
        Data = ''mail.example.com'', Priority = 10, Port = 0, Weight = 0\<rparr> []) =
     [''https://api.digitalocean.com/v1/domains/example.com/records/new?record_type=MX&data=mail.example.com&priority=10&client_id=id&api_key=key'']
   \<and> query_params ''https://api.digitalocean.com/v1/domains/example.com/records/new?record_type=MX&data=mail.example.com&priority=10&client_id=id&api_key=key'' =
       [(''record_type'', ''MX''), (''data'', ''mail.example.com''), (''priority'', ''10''),
        (''client_id'', ''id''), (''api_key'', ''key'')]
   \<and> snd (CreateDroplet \<lparr>ClientID = ''id'', APIKey = ''key''\<rparr> (\<lambda>url. Body ''{}'')
       (\<lambda>body. Inl ''unused'')
       \<lparr>NewDroplet.Name = ''web'', SizeID = 66, SizeSlug = [], ImageID = 0,
       ImageSlug = ''ubuntu'', RegionID = 1, RegionSlug = [], SSHKeyIDs = [],
       PrivateNetworking = True, BackupsEnabled = False\<rparr> []) =
     [''https://api.digitalocean.com/v1/droplets/new?name=web&size_id=66&image_slug=ubuntu&region_id=1&private_networking=true&client_id=id&api_key=key'']
   \<and> query_params ''https://api.digitalocean.com/v1/droplets/new?name=web&size_id=66&image_slug=ubuntu&region_id=1&private_networking=true&client_id=id&api_key=key'' =
       [(''name'', ''web''), (''size_id'', ''66''), (''image_slug'', ''ubuntu''),
        (''region_id'', ''1''), (''private_networking'', ''true''),
        (''client_id'', ''id''), (''api_key'', ''key'')]"
  using optional_fields_omitted[where r = "\<lparr>DomainRecord.ID = 0, DomainID = 0, RecordType = ''MX'',
        Name = [], Data = ''mail.example.com'', Priority = 10, Port = 0, Weight = 0\<rparr>"
      and n = "\<lparr>NewDroplet.Name = ''web'', SizeID = 66, SizeSlug = [], ImageID = 0,
       ImageSlug = ''ubuntu'', RegionID = 1, RegionSlug = [], SSHKeyIDs = [],
       PrivateNetworking = True, BackupsEnabled = False\<rparr>"
      and c = "\<lparr>ClientID = ''id'', APIKey = ''key''\<rparr>" and http = "\<lambda>url. Body ''{}''"
      and unmarshal = "\<lambda>body. Inl ''unused''" and unmarshal' = "\<lambda>body. Inl ''unused''"
      and domainID = "GoString ''example.com''" and reqs = "[]"]
  by (simp add: missing_selectors_def APIURL_def encode_params_def record_params_def
      droplet_params_def credentials_def fmtd_def digits.simps query_params_def Let_def
      key_value_def)

section \<open>Retrieving a droplet\<close>

lemma GetDropletByID_body:
  assumes "http (doGet_url c (''/droplets/'' @ fmtd ID')) = Body body"
    and "unmarshal body = Inr env"
  shows "GetDropletByID c http unmarshal ID' reqs =
     (if GetDropletByID_DOResp.Status env = StatusError
      then Return (None, Some (ErrorString (''could not get droplet with ID '' @ fmtd ID' @ '': ''
              @ GetDropletByID_DOResp.Message env)))
      else Return (Some (GetDropletByID_DOResp.Droplet env), None),
      reqs @ [doGet_url c (''/droplets/'' @ fmtd ID')])"
  using assms
  by (simp add: GetDropletByID_def doGet_def Let_def Sprintf_formats Sprintf_eval Errorf_def)

text \<open>
  C8. Let the network answer the request of \<open>GetDropletByID\<close> with a body that
  decodes into an envelope. When the status of the envelope is \<^verbatim>\<open>OK\<close>, the call
  returns the droplet of the envelope and a nil error. When the status is
  \<^verbatim>\<open>ERROR\<close>, it returns a nil droplet and an error whose text contains the
  message of the envelope and the decimal form of the requested id.
\<close>

theorem GetDropletByID_envelope:
  assumes "http (doGet_url c (''/droplets/'' @ fmtd ID')) = Body body"
    and "unmarshal body = Inr env"
  shows "(GetDropletByID_DOResp.Status env = StatusOK \<longrightarrow>
            fst (GetDropletByID c http unmarshal ID' reqs) =
              Return (Some (GetDropletByID_DOResp.Droplet env), None))
       \<and> (GetDropletByID_DOResp.Status env = StatusError \<longrightarrow>
            (\<exists>err. fst (GetDropletByID c http unmarshal ID' reqs) = Return (None, Some err)
                \<and> Contains (Error err) (GetDropletByID_DOResp.Message env)
                \<and> Contains (Error err) (fmtd ID')))"
proof -
  note b = GetDropletByID_body[where http = http and c = c and ID' = ID' and body = body
      and unmarshal = unmarshal and env = env and reqs = reqs, OF assms]
  let ?msg = "''could not get droplet with ID '' @ fmtd ID' @ '': ''
                @ GetDropletByID_DOResp.Message env"
  have ok: "fst (GetDropletByID c http unmarshal ID' reqs) =
              Return (Some (GetDropletByID_DOResp.Droplet env), None)"
    if "GetDropletByID_DOResp.Status env = StatusOK"
    using b that by (simp add: StatusOK_def StatusError_def)
  have m: "Contains ?msg (GetDropletByID_DOResp.Message env)"
    using Contains_middle[of "''could not get droplet with ID '' @ fmtd ID' @ '': ''"
        "GetDropletByID_DOResp.Message env" "[]"]
    by simp
  have i: "Contains ?msg (fmtd ID')"
    using Contains_middle[of "''could not get droplet with ID ''" "fmtd ID'"
        "'': '' @ GetDropletByID_DOResp.Message env"]
    by simp
  have err: "\<exists>err. fst (GetDropletByID c http unmarshal ID' reqs) = Return (None, Some err)
                \<and> Contains (Error err) (GetDropletByID_DOResp.Message env)
                \<and> Contains (Error err) (fmtd ID')"
    if st: "GetDropletByID_DOResp.Status env = StatusError"
  proof -
    have "fst (GetDropletByID c http unmarshal ID' reqs) = Return (None, Some (ErrorString ?msg))"
      using b st by simp
    then show ?thesis using m i by (intro exI[of _ "ErrorString ?msg"]) simp
  qed
  show ?thesis using ok err by blast
qed

theorem GetDropletByID_envelope_witness:
  "fst (GetDropletByID \<lparr>ClientID = ''id'', APIKey = ''key''\<rparr>
          (\<lambda>url. if url = ''https://api.digitalocean.com/v1/droplets/5?client_id=id&api_key=key''
                 then Body ''{\"status\":\"OK\",\"droplet\":{\"id\":5,\"name\":\"foo\"}}''
                 else GetFailed ''no such host'')
          (\<lambda>body. if body = ''{\"status\":\"OK\",\"droplet\":{\"id\":5,\"name\":\"foo\"}}''
                  then Inr \<lparr>GetDropletByID_DOResp.Status = ''OK'',
                    Droplet = \<lparr>Droplet.ID = 5, Name = ''foo'', ImageID = 0, SizeID = 0,
                      RegionID = 0, BackupsActive = False, IPAdress = [], PrivateIPAddress = [],
                      Locked = False, Status = [], CreatedAt = []\<rparr>,
                    Message = []\<rparr>
                  else Inl ''unexpected end of JSON input'')
          5 []) =
     Return (Some \<lparr>Droplet.ID = 5, Name = ''foo'', ImageID = 0, SizeID = 0, RegionID = 0,
               BackupsActive = False, IPAdress = [], PrivateIPAddress = [], Locked = False,
               Status = [], CreatedAt = []\<rparr>, None)
   \<and> (\<exists>err. fst (GetDropletByID \<lparr>ClientID = ''id'', APIKey = ''key''\<rparr>
          (\<lambda>url. if url = ''https://api.digitalocean.com/v1/droplets/5?client_id=id&api_key=key''
                 then Body ''{\"status\":\"ERROR\",\"message\":\"not found\"}''
                 else GetFailed ''no such host'')
          (\<lambda>body. if body = ''{\"status\":\"ERROR\",\"message\":\"not found\"}''
                  then Inr \<lparr>GetDropletByID_DOResp.Status = ''ERROR'',
                    Droplet = \<lparr>Droplet.ID = 0, Name = [], ImageID = 0, SizeID = 0,
                      RegionID = 0, BackupsActive = False, IPAdress = [], PrivateIPAddress = [],
                      Locked = False, Status = [], CreatedAt = []\<rparr>,
                    Message = ''not found''\<rparr>
                  else Inl ''unexpected end of JSON input'')
          5 []) = Return (None, Some err)
        \<and> Contains (Error err) ''not found'' \<and> Contains (Error err) ''5'')"
  using GetDropletByID_envelope[where http = "\<lambda>url. if url = ''https://api.digitalocean.com/v1/droplets/5?client_id=id&api_key=key''
                 then Body ''{\"status\":\"OK\",\"droplet\":{\"id\":5,\"name\":\"foo\"}}''
                 else GetFailed ''no such host''"
      and c = "\<lparr>ClientID = ''id'', APIKey = ''key''\<rparr>" and ID' = 5 and reqs = "[]"
      and body = "''{\"status\":\"OK\",\"droplet\":{\"id\":5,\"name\":\"foo\"}}''"
      and unmarshal = "\<lambda>body. if body = ''{\"status\":\"OK\",\"droplet\":{\"id\":5,\"name\":\"foo\"}}''
                  then Inr \<lparr>GetDropletByID_DOResp.Status = ''OK'',
                    Droplet = \<lparr>Droplet.ID = 5, Name = ''foo'', ImageID = 0, SizeID = 0,
                      RegionID = 0, BackupsActive = False, IPAdress = [], PrivateIPAddress = [],
                      Locked = False, Status = [], CreatedAt = []\<rparr>,
                    Message = []\<rparr>
                  else Inl ''unexpected end of JSON input''"]
    GetDropletByID_envelope[where http = "\<lambda>url. if url = ''https://api.digitalocean.com/v1/droplets/5?client_id=id&api_key=key''
                 then Body ''{\"status\":\"ERROR\",\"message\":\"not found\"}''
                 else GetFailed ''no such host''"
      and c = "\<lparr>ClientID = ''id'', APIKey = ''key''\<rparr>" and ID' = 5 and reqs = "[]"
      and body = "''{\"status\":\"ERROR\",\"message\":\"not found\"}''"
      and unmarshal = "\<lambda>body. if body = ''{\"status\":\"ERROR\",\"message\":\"not found\"}''
                  then Inr \<lparr>GetDropletByID_DOResp.Status = ''ERROR'',
                    Droplet = \<lparr>Droplet.ID = 0, Name = [], ImageID = 0, SizeID = 0,
                      RegionID = 0, BackupsActive = False, IPAdress = [], PrivateIPAddress = [],
                      Locked = False, Status = [], CreatedAt = []\<rparr>,
                    Message = ''not found''\<rparr>
                  else Inl ''unexpected end of JSON input''"]
  by (simp add: StatusOK_def StatusError_def fmtd_def digits.simps doGet_url_eq APIURL_def)

section \<open>Resizing a droplet\<close>


section \<open>The URL of a resize and of a snapshot\<close>

text \<open>
  C3. \<open>ResizeDroplet\<close> and \<open>TakeSnapshotOnDroplet\<close> append their parameter to a
  path that has no \<^verbatim>\<open>?\<close>, with \<^verbatim>\<open>&\<close>; \<open>doGet\<close> then finds no \<^verbatim>\<open>?\<close> in the
  endpoint and puts one before the credentials. So for every droplet id and every
  size, string or int, and for every non-empty snapshot name, the URL requested
  has an \<^verbatim>\<open>&\<close> before its first \<^verbatim>\<open>?\<close>: it is not well formed. The size and the
  name are part of the path: the query of a resize by numeric size, read back,
  holds the two credentials and nothing else (for credentials that have no \<^verbatim>\<open>&\<close>
  and no \<^verbatim>\<open>#\<close> in them).
\<close>

theorem resize_snapshot_url_malformed:
  "snd (ResizeDroplet c http unmarshal ID' (GoInt k) reqs) =
     reqs @ [APIURL @ ''/droplets/'' @ fmtd ID' @ ''/resize&size_id='' @ fmtd k
               @ ''?client_id='' @ ClientID c @ ''&api_key='' @ APIKey c]
   \<and> \<not> well_formed_url (last (snd (ResizeDroplet c http unmarshal ID' (GoInt k) reqs)))
   \<and> \<not> well_formed_url (last (snd (ResizeDroplet c http unmarshal ID' (GoString slug) reqs)))
   \<and> (name \<noteq> [] \<longrightarrow>
        \<not> well_formed_url (last (snd (TakeSnapshotOnDroplet c http unmarshal ID' name reqs))))
   \<and> (CHR ''&'' \<notin> set (ClientID c) \<and> CHR ''&'' \<notin> set (APIKey c)
        \<and> CHR ''#'' \<notin> set (ClientID c) \<and> CHR ''#'' \<notin> set (APIKey c) \<longrightarrow>
        query_params (last (snd (ResizeDroplet c http unmarshal ID' (GoInt k) reqs))) =
          [(''client_id'', ClientID c), (''api_key'', APIKey c)])"
proof (intro conjI impI)
  have nq: "CHR ''?'' \<notin> set (''/droplets/'' @ fmtd ID' @ ''/resize'')"
    using fmtd_no_question[of ID'] by simp
  have nq': "CHR ''?'' \<notin> set (''/droplets/'' @ fmtd ID' @ ''/snapshot'')"
    using fmtd_no_question[of ID'] by simp
  have nk: "CHR ''?'' \<notin> set (''/droplets/'' @ fmtd ID' @ ''/resize&size_id='' @ fmtd k)"
    using fmtd_no_question[of ID'] fmtd_no_question[of k] by simp
  then show u: "snd (ResizeDroplet c http unmarshal ID' (GoInt k) reqs) =
     reqs @ [APIURL @ ''/droplets/'' @ fmtd ID' @ ''/resize&size_id='' @ fmtd k
               @ ''?client_id='' @ ClientID c @ ''&api_key='' @ APIKey c]"
    unfolding ResizeDroplet_int_reqs doGet_url_eq by simp
  show "\<not> well_formed_url (last (snd (ResizeDroplet c http unmarshal ID' (GoInt k) reqs)))"
    using doGet_url_amp[OF nq, of c "''size_id='' @ fmtd k"]
    unfolding ResizeDroplet_int_reqs by simp
  show "\<not> well_formed_url (last (snd (ResizeDroplet c http unmarshal ID' (GoString slug) reqs)))"
    using doGet_url_amp[OF nq, of c "''size_slug='' @ slug"]
    unfolding ResizeDroplet_string_reqs by simp
  show "\<not> well_formed_url (last (snd (TakeSnapshotOnDroplet c http unmarshal ID' name reqs)))"
    if "name \<noteq> []"
    using that doGet_url_amp[OF nq', of c "''name='' @ name"]
    unfolding TakeSnapshotOnDroplet_reqs by simp
  show "query_params (last (snd (ResizeDroplet c http unmarshal ID' (GoInt k) reqs))) =
          [(''client_id'', ClientID c), (''api_key'', APIKey c)]"
    if safe: "CHR ''&'' \<notin> set (ClientID c) \<and> CHR ''&'' \<notin> set (APIKey c)
        \<and> CHR ''#'' \<notin> set (ClientID c) \<and> CHR ''#'' \<notin> set (APIKey c)"
  proof -
    have pre: "CHR ''?'' \<notin> set (APIURL @ ''/droplets/'' @ fmtd ID' @ ''/resize&size_id='' @ fmtd k)"
      using nk by (simp add: APIURL_def)
    have nh: "CHR ''#'' \<notin> set (APIURL @ ''/droplets/'' @ fmtd ID' @ ''/resize&size_id='' @ fmtd k)"
      using fmtd_no_hash[of ID'] fmtd_no_hash[of k] by (simp add: APIURL_def)
    have ne: "credentials c \<noteq> []" by (simp add: credentials_def)
    have eh: "CHR ''#'' \<notin> set (encode_params (credentials c))"
      using safe by (simp add: encode_params_def credentials_def)
    have "query_params ((APIURL @ ''/droplets/'' @ fmtd ID' @ ''/resize&size_id='' @ fmtd k)
            @ ''?'' @ encode_params (credentials c)) = credentials c"
      using safe by (intro query_params_encode[OF pre ne nh eh]) (simp add: credentials_def)
    then show ?thesis unfolding u by (simp add: encode_params_def credentials_def)
  qed
qed

theorem resize_snapshot_url_malformed_witness:
  "snd (ResizeDroplet \<lparr>ClientID = ''id'', APIKey = ''key''\<rparr> (\<lambda>url. Body ''{}'')
          (\<lambda>body. Inl ''unused'') 5 (GoInt 66) []) =
     [''https://api.digitalocean.com/v1/droplets/5/resize&size_id=66?client_id=id&api_key=key'']
   \<and> query_params
         ''https://api.digitalocean.com/v1/droplets/5/resize&size_id=66?client_id=id&api_key=key'' =
       [(''client_id'', ''id''), (''api_key'', ''key'')]
   \<and> snd (TakeSnapshotOnDroplet \<lparr>ClientID = ''id'', APIKey = ''key''\<rparr> (\<lambda>url. Body ''{}'')
          (\<lambda>body. Inl ''unused'') 5 ''nightly'' []) =
     [''https://api.digitalocean.com/v1/droplets/5/snapshot&name=nightly?client_id=id&api_key=key'']
   \<and> \<not> well_formed_url
         ''https://api.digitalocean.com/v1/droplets/5/snapshot&name=nightly?client_id=id&api_key=key''"
  using resize_snapshot_url_malformed[where c = "\<lparr>ClientID = ''id'', APIKey = ''key''\<rparr>"
      and http = "\<lambda>url. Body ''{}''" and unmarshal = "\<lambda>body. Inl ''unused''" and ID' = 5
      and k = 66 and slug = "''512mb''" and name = "''nightly''" and reqs = "[]"]
    TakeSnapshotOnDroplet_reqs[where c = "\<lparr>ClientID = ''id'', APIKey = ''key''\<rparr>"
      and http = "\<lambda>url. Body ''{}''" and unmarshal = "\<lambda>body. Inl ''unused''" and ID' = 5
      and name = "''nightly''" and reqs = "[]"]
  by (simp add: APIURL_def fmtd_def digits.simps doGet_url_eq query_params_def Let_def
      key_value_def)

section \<open>Updating a domain record\<close>

text \<open>
  C1. The format of \<open>UpdateRecordByDomain\<close> has the verbs \<^verbatim>\<open>%v\<close>, \<^verbatim>\<open>%s\<close>, \<^verbatim>\<open>%s\<close> and
  is given the domain, the record id, the record type and the data. For every
  domain and every record with a non-zero id, a non-empty type and non-empty
  data, the URL requested therefore has the parameter \<^verbatim>\<open>record_type\<close> set to
  \<^verbatim>\<open>%!s(int=<id>)\<close> and the parameter \<^verbatim>\<open>data\<close> set to the record type followed by
  \<^verbatim>\<open>%!(EXTRA string=<data>)\<close>: neither is the value supplied.
\<close>

theorem UpdateRecordByDomain_request:
  assumes "DomainRecord.ID r \<noteq> 0" and "DomainRecord.RecordType r \<noteq> []"
    and "DomainRecord.Data r \<noteq> []"
  shows "snd (UpdateRecordByDomain c http unmarshal domainID r reqs) =
     reqs @ [APIURL @ ''/domains/'' @ fmt_v domainID @ ''/records/new?record_type=%!s(int=''
       @ fmtd (DomainRecord.ID r) @ '')&data='' @ DomainRecord.RecordType r
       @ ''%!(EXTRA string='' @ DomainRecord.Data r @ '')''
       @ optional_param ''name'' (DomainRecord.Name r \<noteq> []) (DomainRecord.Name r)
       @ optional_param ''priority'' (DomainRecord.Priority r \<noteq> 0) (fmtd (DomainRecord.Priority r))
       @ optional_param ''port'' (DomainRecord.Port r \<noteq> 0) (fmtd (DomainRecord.Port r))
       @ optional_param ''weight'' (DomainRecord.Weight r \<noteq> 0) (fmtd (DomainRecord.Weight r))
       @ ''&client_id='' @ ClientID c @ ''&api_key='' @ APIKey c]"
  unfolding UpdateRecordByDomain_reqs[OF assms] doGet_url_eq by simp

theorem UpdateRecordByDomain_request_witness:
  "snd (UpdateRecordByDomain \<lparr>ClientID = ''id'', APIKey = ''key''\<rparr> (\<lambda>url. Body ''{}'')
       (\<lambda>body. Inl ''unused'') (GoInt 1)
       \<lparr>DomainRecord.ID = 5, DomainID = 1, RecordType = ''A'', Name = [], Data = ''1.2.3.4'',
        Priority = 0, Port = 0, Weight = 0\<rparr> []) =
     [''https://api.digitalocean.com/v1/domains/1/records/new?record_type=%!s(int=5)&data=A%!(EXTRA string=1.2.3.4)&client_id=id&api_key=key'']"
  using UpdateRecordByDomain_request[where r = "\<lparr>DomainRecord.ID = 5, DomainID = 1,
        RecordType = ''A'', Name = [], Data = ''1.2.3.4'', Priority = 0, Port = 0, Weight = 0\<rparr>"
      and c = "\<lparr>ClientID = ''id'', APIKey = ''key''\<rparr>" and http = "\<lambda>url. Body ''{}''"
      and unmarshal = "\<lambda>body. Inl ''unused''" and domainID = "GoInt 1" and reqs = "[]"]
  by (simp add: APIURL_def optional_param_def fmtd_def digits.simps)

end
